theory Spec2Isabelle
  imports Complex_Main
begin

section \<open>The filter catalog\<close>

text \<open>
  The filter kinds named in \<^verbatim>\<open>CudaFilteredBackProjectionAlgorithm.cpp\<close>. The enumeration
  itself is declared in the engine's header; only the enumerators that the source file
  mentions are listed.
\<close>

datatype E_FBPFILTER =
    FILTER_NONE
  | FILTER_RAMLAK
  | FILTER_SHEPPLOGAN
  | FILTER_COSINE
  | FILTER_HAMMING
  | FILTER_HANN
  | FILTER_TUKEY
  | FILTER_LANCZOS
  | FILTER_TRIANGULAR
  | FILTER_GAUSSIAN
  | FILTER_BARTLETTHANN
  | FILTER_BLACKMAN
  | FILTER_NUTTALL
  | FILTER_BLACKMANHARRIS
  | FILTER_BLACKMANNUTTALL
  | FILTER_FLATTOP
  | FILTER_KAISER
  | FILTER_PARZEN
  | FILTER_PROJECTION
  | FILTER_SINOGRAM
  | FILTER_RPROJECTION
  | FILTER_RSINOGRAM

text \<open>
  A C string is represented by the characters that precede its terminating NUL.
  \<open>c_str\<close> is what \<^verbatim>\<open>std::string::c_str()\<close> hands to a reader of C strings: the
  content up to the first NUL byte.
\<close>

definition c_str :: "string \<Rightarrow> string" where
  "c_str s = takeWhile (\<lambda>c. c \<noteq> CHR 0x00) s"

text \<open>\<^verbatim>\<open>tolower\<close> in the C locale: only the letters A to Z change.\<close>

definition tolower :: "char \<Rightarrow> char" where
  "tolower c = (let n = (of_char c :: nat) in if 65 \<le> n \<and> n \<le> 90 then char_of (n + 32) else c)"

text \<open>
  \<^verbatim>\<open>strcasecmp\<close>: the difference of the first pair of characters that differ after
  lower-casing, the terminator counting as 0; zero when there is none.
\<close>

fun strcasecmp :: "string \<Rightarrow> string \<Rightarrow> int" where
  "strcasecmp [] [] = 0"
| "strcasecmp [] (b # bs) = - int (of_char (tolower b))"
| "strcasecmp (a # as) [] = int (of_char (tolower a))"
| "strcasecmp (a # as) (b # bs) =
     (if tolower a = tolower b then strcasecmp as bs
      else int (of_char (tolower a)) - int (of_char (tolower b)))"

definition stringCompareLowerCase :: "string \<Rightarrow> string \<Rightarrow> bool" where
  "stringCompareLowerCase stringA stringB = (let iCmpReturn = strcasecmp stringA stringB in iCmpReturn = 0)"

text \<open>
  \<^verbatim>\<open>ASTRA_ERROR\<close> appends a formatted line to the log. The message of the failed
  conversion is \<^verbatim>\<open>Failed to convert "%s" into a filter.\<close>
\<close>

definition convert_failure_message :: "string \<Rightarrow> string" where
  "convert_failure_message filterType =
     ''Failed to convert '' @ [CHR 0x22] @ filterType @ [CHR 0x22] @ '' into a filter.''"

text \<open>
  \<^verbatim>\<open>_convertStringToFilter\<close>: the chain of comparisons in source order, each against
  the literal the source has. The result is the filter kind and the lines logged.
\<close>

definition convertStringToFilter :: "string \<Rightarrow> E_FBPFILTER \<times> string list" where
  "convertStringToFilter filterType =
    (if stringCompareLowerCase filterType ''ram-lak'' then (FILTER_RAMLAK, [])
     else if stringCompareLowerCase filterType ''shepp-logan'' then (FILTER_SHEPPLOGAN, [])
     else if stringCompareLowerCase filterType ''cosine'' then (FILTER_COSINE, [])
     else if stringCompareLowerCase filterType ''hamming'' then (FILTER_HAMMING, [])
     else if stringCompareLowerCase filterType ''hann'' then (FILTER_HANN, [])
     else if stringCompareLowerCase filterType ''none'' then (FILTER_NONE, [])
     else if stringCompareLowerCase filterType ''tukey'' then (FILTER_TUKEY, [])
     else if stringCompareLowerCase filterType ''lanczos'' then (FILTER_LANCZOS, [])
     else if stringCompareLowerCase filterType ''triangular'' then (FILTER_TRIANGULAR, [])
     else if stringCompareLowerCase filterType ''gaussian'' then (FILTER_GAUSSIAN, [])
     else if stringCompareLowerCase filterType ''barlett-hann'' then (FILTER_BARTLETTHANN, [])
     else if stringCompareLowerCase filterType ''blackman'' then (FILTER_BLACKMAN, [])
     else if stringCompareLowerCase filterType ''nuttall'' then (FILTER_NUTTALL, [])
     else if stringCompareLowerCase filterType ''blackman-harris'' then (FILTER_BLACKMANHARRIS, [])
     else if stringCompareLowerCase filterType ''blackman-nuttall'' then (FILTER_BLACKMANNUTTALL, [])
     else if stringCompareLowerCase filterType ''flat-top'' then (FILTER_FLATTOP, [])
     else if stringCompareLowerCase filterType ''kaiser'' then (FILTER_KAISER, [])
     else if stringCompareLowerCase filterType ''parzen'' then (FILTER_PARZEN, [])
     else if stringCompareLowerCase filterType ''projection'' then (FILTER_PROJECTION, [])
     else if stringCompareLowerCase filterType ''sinogram'' then (FILTER_SINOGRAM, [])
     else if stringCompareLowerCase filterType ''rprojection'' then (FILTER_RPROJECTION, [])
     else if stringCompareLowerCase filterType ''rsinogram'' then (FILTER_RSINOGRAM, [])
     else (FILTER_NONE, [convert_failure_message filterType]))"

text \<open>
  The catalog as published: each name with the kind it stands for. It is the table of
  the specification, kept apart from the literals of \<open>convertStringToFilter\<close>.
\<close>

definition published_catalog :: "(string \<times> E_FBPFILTER) list" where
  "published_catalog =
    [(''ram-lak'', FILTER_RAMLAK), (''shepp-logan'', FILTER_SHEPPLOGAN),
     (''cosine'', FILTER_COSINE), (''hamming'', FILTER_HAMMING), (''hann'', FILTER_HANN),
     (''none'', FILTER_NONE), (''tukey'', FILTER_TUKEY), (''lanczos'', FILTER_LANCZOS),
     (''triangular'', FILTER_TRIANGULAR), (''gaussian'', FILTER_GAUSSIAN),
     (''bartlett-hann'', FILTER_BARTLETTHANN), (''blackman'', FILTER_BLACKMAN),
     (''nuttall'', FILTER_NUTTALL), (''blackman-harris'', FILTER_BLACKMANHARRIS),
     (''blackman-nuttall'', FILTER_BLACKMANNUTTALL), (''flat-top'', FILTER_FLATTOP),
     (''kaiser'', FILTER_KAISER), (''parzen'', FILTER_PARZEN),
     (''projection'', FILTER_PROJECTION), (''sinogram'', FILTER_SINOGRAM),
     (''rprojection'', FILTER_RPROJECTION), (''rsinogram'', FILTER_RSINOGRAM)]"

text \<open>A string matches a catalog name when the two are equal up to the case of letters.\<close>

definition lowercase :: "string \<Rightarrow> string" where
  "lowercase s = map tolower s"

definition matches_name :: "string \<Rightarrow> string \<Rightarrow> bool" where
  "matches_name s name = (lowercase s = lowercase name)"

definition in_published_catalog :: "string \<Rightarrow> bool" where
  "in_published_catalog s = list_ex (\<lambda>(name, kind). matches_name s name) published_catalog"

text \<open>
  The chain of comparisons of \<open>convertStringToFilter\<close> as it acts on the lower-cased
  input \<open>l\<close> (\<open>s\<close> is the input as given, for the message).
\<close>

definition compare_chain :: "string \<Rightarrow> string \<Rightarrow> E_FBPFILTER \<times> string list" where
  "compare_chain s l =
    (if l = ''ram-lak'' then (FILTER_RAMLAK, [])
     else if l = ''shepp-logan'' then (FILTER_SHEPPLOGAN, [])
     else if l = ''cosine'' then (FILTER_COSINE, [])
     else if l = ''hamming'' then (FILTER_HAMMING, [])
     else if l = ''hann'' then (FILTER_HANN, [])
     else if l = ''none'' then (FILTER_NONE, [])
     else if l = ''tukey'' then (FILTER_TUKEY, [])
     else if l = ''lanczos'' then (FILTER_LANCZOS, [])
     else if l = ''triangular'' then (FILTER_TRIANGULAR, [])
     else if l = ''gaussian'' then (FILTER_GAUSSIAN, [])
     else if l = ''barlett-hann'' then (FILTER_BARTLETTHANN, [])
     else if l = ''blackman'' then (FILTER_BLACKMAN, [])
     else if l = ''nuttall'' then (FILTER_NUTTALL, [])
     else if l = ''blackman-harris'' then (FILTER_BLACKMANHARRIS, [])
     else if l = ''blackman-nuttall'' then (FILTER_BLACKMANNUTTALL, [])
     else if l = ''flat-top'' then (FILTER_FLATTOP, [])
     else if l = ''kaiser'' then (FILTER_KAISER, [])
     else if l = ''parzen'' then (FILTER_PARZEN, [])
     else if l = ''projection'' then (FILTER_PROJECTION, [])
     else if l = ''sinogram'' then (FILTER_SINOGRAM, [])
     else if l = ''rprojection'' then (FILTER_RPROJECTION, [])
     else if l = ''rsinogram'' then (FILTER_RSINOGRAM, [])
     else (FILTER_NONE, [convert_failure_message s]))"

section \<open>Datasets, configuration and the instance\<close>

text \<open>
  The dataset, geometry and configuration classes are declared outside the source file.
  Each is represented by what the source file asks of it: the answers of the accessors
  it calls. A pointer that may be null is an \<open>option\<close>. A C++ \<^verbatim>\<open>int\<close> is an
  \<open>int\<close> within the 32-bit range; the one multiplication of the file checks its range
  (see \<open>int_mul\<close>). A \<^verbatim>\<open>float\<close> is only stored and copied, never computed with,
  and is represented by a \<open>real\<close>.
\<close>

record CProjectionGeometry2D =
  isFanFlat :: bool
  getDetectorCount :: int
  getProjectionAngleCount :: int

record CFloat32ProjectionData2D =
  pd_isInitialized :: bool
  pd_getGeometry :: "CProjectionGeometry2D option"
  pd_getAngleCount :: int
  pd_getDataConst :: "real list"

record CFloat32VolumeData2D =
  vd_isInitialized :: bool

datatype CFloat32Data2D =
    ProjectionData CFloat32ProjectionData2D
  | VolumeData CFloat32VolumeData2D

text \<open>
  \<^verbatim>\<open>CData2DManager::getSingleton().get(id)\<close>: the object registered under an id, or
  null.
\<close>

type_synonym CData2DManager = "int \<Rightarrow> CFloat32Data2D option"

text \<open>\<^verbatim>\<open>dynamic_cast<CFloat32ProjectionData2D*>\<close>: null for a null pointer and for an
  object of another class.\<close>

fun dynamic_cast_projection :: "CFloat32Data2D option \<Rightarrow> CFloat32ProjectionData2D option" where
  "dynamic_cast_projection None = None"
| "dynamic_cast_projection (Some (ProjectionData d)) = Some d"
| "dynamic_cast_projection (Some (VolumeData v)) = None"

text \<open>
  The configuration node with the children and the option that \<open>initialize\<close> reads,
  their contents already parsed (\<^verbatim>\<open>getContent\<close>, \<^verbatim>\<open>getContentInt\<close>,
  \<^verbatim>\<open>getContentNumerical\<close>, \<^verbatim>\<open>getOptionBool\<close>). \<open>None\<close> is an absent child.
\<close>

record XMLNode =
  node_FilterType :: "string option"
  node_FilterSinogramId :: "int option"
  node_FilterParameter :: "real option"
  node_FilterD :: "real option"
  option_ShortScan :: "bool option"

record Config =
  cfg_self :: "XMLNode option"

text \<open>
  Modelled from the spec: \<^verbatim>\<open>CCudaReconstructionAlgorithm2D::initialize(_cfg)\<close> and
  \<^verbatim>\<open>initializeFromProjector()\<close> are members of the base class, which is not in the
  source file. The spec gives them the shared 2-D setup (dataset binding, device index,
  supersampling) and a success flag. \<open>base_setup\<close> is their outcome: the flag, and the
  values the inherited members hold once both have run. Neither member is read between
  the two calls except \<open>m_pSinogram\<close>, which only the first one binds.
\<close>

record base_setup =
  base_initialize_ok :: bool
  base_pSinogram :: "CFloat32ProjectionData2D option"
  base_pReconstruction :: "CFloat32VolumeData2D option"
  base_iGPUIndex :: int
  base_iPixelSuperSampling :: int

text \<open>The members of the instance that the source file reads or writes.\<close>

record algorithm =
  m_bIsInitialized :: bool
  m_pSinogram :: "CFloat32ProjectionData2D option"
  m_pReconstruction :: "CFloat32VolumeData2D option"
  m_iGPUIndex :: int
  m_iPixelSuperSampling :: int
  m_pAlgo :: "nat option"
  m_bAlgoInit :: bool
  m_eFilter :: E_FBPFILTER
  m_pfFilter :: "nat option"
  m_iFilterWidth :: int
  m_fFilterParameter :: real
  m_fFilterD :: real
  m_bShortScan :: bool

text \<open>
  The free store: the live \<^verbatim>\<open>float\<close> arrays with their contents, the live engine
  objects, and the next address to hand out. An address is never handed out twice.
\<close>

record cpp_heap =
  float_arrays :: "nat \<rightharpoonup> real list"
  engines :: "nat set"
  next_addr :: nat

definition empty_heap :: cpp_heap where
  "empty_heap = \<lparr>float_arrays = Map.empty, engines = {}, next_addr = 0\<rparr>"

definition new_float_array :: "real list \<Rightarrow> cpp_heap \<Rightarrow> nat \<times> cpp_heap" where
  "new_float_array xs h =
     (next_addr h,
      h\<lparr>float_arrays := (float_arrays h)(next_addr h \<mapsto> xs), next_addr := Suc (next_addr h)\<rparr>)"

definition new_FBP :: "cpp_heap \<Rightarrow> nat \<times> cpp_heap" where
  "new_FBP h =
     (next_addr h, h\<lparr>engines := insert (next_addr h) (engines h), next_addr := Suc (next_addr h)\<rparr>)"

definition delete_float_array :: "nat option \<Rightarrow> cpp_heap \<Rightarrow> cpp_heap" where
  "delete_float_array p h =
     (case p of None \<Rightarrow> h | Some a \<Rightarrow> h\<lparr>float_arrays := (float_arrays h)(a := None)\<rparr>)"

definition delete_engine :: "nat option \<Rightarrow> cpp_heap \<Rightarrow> cpp_heap" where
  "delete_engine p h = (case p of None \<Rightarrow> h | Some a \<Rightarrow> h\<lparr>engines := engines h - {a}\<rparr>)"

text \<open>
  What a call works on: the instance, the free store, the lines logged so far, and the
  names marked as parsed on the configuration (\<^verbatim>\<open>markNodeParsed\<close>,
  \<^verbatim>\<open>markOptionParsed\<close>).
\<close>

record world =
  obj :: algorithm
  hp :: cpp_heap
  logged :: "string list"
  parsed_nodes :: "string list"
  parsed_options :: "string list"

text \<open>How a call can end without returning; the abort carries the log at that point.\<close>

datatype fault =
    NullPointerDereference
  | SignedIntegerOverflow
  | BadArrayNewLength
  | OutOfBoundsRead
  | AssertionFailed

type_synonym 'a outcome = "(fault \<times> string list) + 'a"

definition abort :: "fault \<Rightarrow> world \<Rightarrow> 'a outcome" where
  "abort f w = Inl (f, logged w)"

definition ASTRA_ERROR :: "string \<Rightarrow> world \<Rightarrow> world" where
  "ASTRA_ERROR msg w = w\<lparr>logged := logged w @ [msg]\<rparr>"

definition markNodeParsed :: "string \<Rightarrow> world \<Rightarrow> world" where
  "markNodeParsed name w = w\<lparr>parsed_nodes := parsed_nodes w @ [name]\<rparr>"

definition markOptionParsed :: "string \<Rightarrow> world \<Rightarrow> world" where
  "markOptionParsed name w = w\<lparr>parsed_options := parsed_options w @ [name]\<rparr>"

text \<open>
  Modelled from the spec: the macro \<^verbatim>\<open>ASTRA_CONFIG_CHECK(value, type, msg)\<close> is not in
  the source file. The spec has a failed check report a configuration error naming what
  was violated and fail the call; \<open>config_error\<close> is the report, and \<open>check\<close> below
  returns false after it.
\<close>

definition config_error :: "string \<Rightarrow> string \<Rightarrow> world \<Rightarrow> world" where
  "config_error type msg w = ASTRA_ERROR (''Configuration Error in '' @ type @ '': '' @ msg) w"

text \<open>
  Modelled from the spec: the macro \<^verbatim>\<open>ASTRA_ASSERT\<close> is not in the source file. The
  spec makes the condition it guards fatal; \<open>ASTRA_ASSERT_fails\<close> is the macro on a
  false argument: the call is aborted.
\<close>

definition ASTRA_ASSERT_fails :: "world \<Rightarrow> 'a outcome" where
  "ASTRA_ASSERT_fails w = abort AssertionFailed w"

section \<open>The validator\<close>

text \<open>\<^verbatim>\<open>check()\<close>: the seven tests in source order; the flag is set on success only.\<close>

definition check :: "world \<Rightarrow> bool \<times> world" where
  "check w =
    (let s = obj w in
     case m_pSinogram s of
       None \<Rightarrow> (False, config_error ''FBP_CUDA'' ''Invalid Projection Data Object.'' w)
     | Some pSinogram \<Rightarrow>
    (case m_pReconstruction s of
       None \<Rightarrow> (False, config_error ''FBP_CUDA'' ''Invalid Reconstruction Data Object.'' w)
     | Some pReconstruction \<Rightarrow>
       if (m_eFilter s = FILTER_PROJECTION \<or> m_eFilter s = FILTER_SINOGRAM
           \<or> m_eFilter s = FILTER_RPROJECTION \<or> m_eFilter s = FILTER_RSINOGRAM)
          \<and> m_pfFilter s = None
       then (False, config_error ''FBP_CUDA'' ''Invalid filter pointer.'' w)
       else if \<not> pd_isInitialized pSinogram
       then (False, config_error ''FBP_CUDA'' ''Projection Data Object Not Initialized.'' w)
       else if \<not> vd_isInitialized pReconstruction
       then (False, config_error ''FBP_CUDA'' ''Reconstruction Data Object Not Initialized.'' w)
       else if \<not> (- 1 \<le> m_iGPUIndex s)
       then (False, config_error ''FBP_CUDA'' ''GPUIndex must be a non-negative integer or -1.'' w)
       else if \<not> (0 \<le> m_iPixelSuperSampling s)
       then (False, config_error ''FBP_CUDA'' ''PixelSuperSampling must be a non-negative integer.'' w)
       else (True, w\<lparr>obj := s\<lparr>m_bIsInitialized := True\<rparr>\<rparr>)))"

text \<open>The two categories of filter kinds, as the specification lists them.\<close>

definition custom_data_kinds :: "E_FBPFILTER list" where
  "custom_data_kinds = [FILTER_PROJECTION, FILTER_SINOGRAM, FILTER_RPROJECTION, FILTER_RSINOGRAM]"

definition analytic_kinds :: "E_FBPFILTER list" where
  "analytic_kinds =
    [FILTER_RAMLAK, FILTER_SHEPPLOGAN, FILTER_COSINE, FILTER_HAMMING, FILTER_HANN, FILTER_NONE,
     FILTER_TUKEY, FILTER_LANCZOS, FILTER_TRIANGULAR, FILTER_GAUSSIAN, FILTER_BARTLETTHANN,
     FILTER_BLACKMAN, FILTER_NUTTALL, FILTER_BLACKMANHARRIS, FILTER_BLACKMANNUTTALL,
     FILTER_FLATTOP, FILTER_KAISER, FILTER_PARZEN]"

definition per_angle_kinds :: "E_FBPFILTER list" where
  "per_angle_kinds = [FILTER_SINOGRAM, FILTER_RSINOGRAM]"

text \<open>The five preconditions of the validator, as the specification states them.\<close>

definition projection_ready :: "algorithm \<Rightarrow> bool" where
  "projection_ready s = (case m_pSinogram s of None \<Rightarrow> False | Some d \<Rightarrow> pd_isInitialized d)"

definition reconstruction_ready :: "algorithm \<Rightarrow> bool" where
  "reconstruction_ready s = (case m_pReconstruction s of None \<Rightarrow> False | Some v \<Rightarrow> vd_isInitialized v)"

definition buffer_present_if_custom :: "algorithm \<Rightarrow> bool" where
  "buffer_present_if_custom s = (m_eFilter s \<in> set custom_data_kinds \<longrightarrow> m_pfFilter s \<noteq> None)"

definition validator_preconditions :: "algorithm \<Rightarrow> bool" where
  "validator_preconditions s =
     (projection_ready s \<and> reconstruction_ready s \<and> buffer_present_if_custom s
      \<and> - 1 \<le> m_iGPUIndex s \<and> 0 \<le> m_iPixelSuperSampling s)"

section \<open>Construction and clearing\<close>

text \<open>
  The constructor assigns four members after the base class's \<^verbatim>\<open>_clear()\<close>. The
  argument stands for the members as that call and the allocation leave them; the
  constructor of the source file assigns no other member.
\<close>

definition constructor :: "algorithm \<Rightarrow> algorithm" where
  "constructor raw =
     raw\<lparr>m_bIsInitialized := False, m_pfFilter := None, m_fFilterParameter := - 1, m_fFilterD := 1\<rparr>"

definition new_instance :: "algorithm \<Rightarrow> world" where
  "new_instance raw =
     \<lparr>obj = constructor raw, hp = empty_heap, logged = [], parsed_nodes = [], parsed_options = []\<rparr>"

text \<open>The destructor: \<^verbatim>\<open>delete[] m_pfFilter; m_pfFilter = NULL;\<close>\<close>

definition destructor :: "world \<Rightarrow> world" where
  "destructor w =
     w\<lparr>hp := delete_float_array (m_pfFilter (obj w)) (hp w), obj := (obj w)\<lparr>m_pfFilter := None\<rparr>\<rparr>"

text \<open>
  Modelled from the spec: \<^verbatim>\<open>clear()\<close> is called by both \<open>initialize\<close> members and is
  not defined in the source file. The spec's full clear: release the owned buffer,
  release any engine handle, reset the scalars to their defaults (filter parameter
  \<open>-1\<close>, D factor \<open>1\<close>, short-scan off), and go back to unconfigured.
\<close>

definition clear :: "world \<Rightarrow> world" where
  "clear w =
     w\<lparr>hp := delete_engine (m_pAlgo (obj w)) (delete_float_array (m_pfFilter (obj w)) (hp w)),
       obj := (obj w)\<lparr>m_bIsInitialized := False, m_pAlgo := None, m_bAlgoInit := False,
                      m_pfFilter := None, m_fFilterParameter := - 1, m_fFilterD := 1,
                      m_bShortScan := False\<rparr>\<rparr>"

section \<open>Declarative initialization\<close>

text \<open>Lines 64 to 68 and 145 to 149: \<^verbatim>\<open>if (m_bIsInitialized) clear();\<close>\<close>

definition clear_if_initialized :: "world \<Rightarrow> world" where
  "clear_if_initialized w = (if m_bIsInitialized (obj w) then clear w else w)"

text \<open>Line 70: the base class's setup, and its answer stored in the flag.\<close>

definition base_initialize :: "base_setup \<Rightarrow> world \<Rightarrow> world" where
  "base_initialize base w =
     w\<lparr>obj := (obj w)\<lparr>m_pSinogram := base_pSinogram base,
                      m_pReconstruction := base_pReconstruction base,
                      m_iGPUIndex := base_iGPUIndex base,
                      m_iPixelSuperSampling := base_iPixelSuperSampling base,
                      m_bIsInitialized := base_initialize_ok base\<rparr>\<rparr>"

text \<open>Lines 75 to 81: the filter kind, \<open>ram-lak\<close> when the child is absent.\<close>

definition read_FilterType :: "XMLNode \<Rightarrow> world \<Rightarrow> world" where
  "read_FilterType node w =
     (let (eFilter, msgs) =
            (case node_FilterType node of
               Some content \<Rightarrow> convertStringToFilter (c_str content)
             | None \<Rightarrow> (FILTER_RAMLAK, []))
      in markNodeParsed ''FilterType''
           (w\<lparr>obj := (obj w)\<lparr>m_eFilter := eFilter\<rparr>, logged := logged w @ msgs\<rparr>))"

text \<open>
  The product of two \<^verbatim>\<open>int\<close>s; outside the 32-bit range the C++ multiplication is
  undefined.
\<close>

definition int_mul :: "int \<Rightarrow> int \<Rightarrow> int option" where
  "int_mul a b = (if - (2 ^ 31) \<le> a * b \<and> a * b < 2 ^ 31 then Some (a * b) else None)"

text \<open>
  The byte count handed to \<^verbatim>\<open>memcpy\<close> on line 93,
  \<^verbatim>\<open>sizeof(float) * m_iFilterWidth * iFilterProjectionCount\<close>, is computed in the
  64-bit unsigned \<^verbatim>\<open>size_t\<close>.
\<close>

definition memcpy_size :: "int \<Rightarrow> int \<Rightarrow> int" where
  "memcpy_size width count = ((4 * (width mod 2 ^ 64)) mod 2 ^ 64 * (count mod 2 ^ 64)) mod 2 ^ 64"

text \<open>
  Lines 83 to 100. The looked-up pointer and the geometry pointer are dereferenced
  unchecked. \<^verbatim>\<open>new float[n]\<close> fails for a negative \<open>n\<close>; \<^verbatim>\<open>memcpy\<close> reads
  \<open>n\<close> elements of the dataset's buffer (\<open>memcpy_size\<close> is \<open>4 * n\<close> bytes whenever the
  allocation succeeds, lemma \<open>memcpy_size_exact\<close>).
\<close>

definition read_FilterSinogramId :: "CData2DManager \<Rightarrow> XMLNode \<Rightarrow> world \<Rightarrow> world outcome" where
  "read_FilterSinogramId manager node w =
    (case node_FilterSinogramId node of
       None \<Rightarrow>
         Inr (markNodeParsed ''FilterSinogramId''
                (w\<lparr>obj := (obj w)\<lparr>m_iFilterWidth := 0, m_pfFilter := None\<rparr>\<rparr>))
     | Some ident \<Rightarrow>
        (case dynamic_cast_projection (manager ident) of
           None \<Rightarrow> abort NullPointerDereference w
         | Some pFilterData \<Rightarrow>
            (case pd_getGeometry pFilterData of
               None \<Rightarrow> abort NullPointerDereference w
             | Some geom \<Rightarrow>
                let iFilterWidth = getDetectorCount geom;
                    iFilterProjectionCount = getProjectionAngleCount geom
                in (case int_mul iFilterWidth iFilterProjectionCount of
                      None \<Rightarrow> abort SignedIntegerOverflow w
                    | Some n \<Rightarrow>
                        if n < 0 then abort BadArrayNewLength w
                        else if length (pd_getDataConst pFilterData) < nat n
                        then abort OutOfBoundsRead w
                        else
                          let (a, h) = new_float_array (take (nat n) (pd_getDataConst pFilterData)) (hp w)
                          in Inr (markNodeParsed ''FilterSinogramId''
                                    (w\<lparr>obj := (obj w)\<lparr>m_iFilterWidth := iFilterWidth,
                                                       m_pfFilter := Some a\<rparr>,
                                       hp := h\<rparr>))))))"

text \<open>Lines 102 to 113.\<close>

definition read_FilterParameter :: "XMLNode \<Rightarrow> world \<Rightarrow> world" where
  "read_FilterParameter node w =
     markNodeParsed ''FilterParameter''
       (w\<lparr>obj := (obj w)\<lparr>m_fFilterParameter :=
              (case node_FilterParameter node of Some fParameter \<Rightarrow> fParameter | None \<Rightarrow> - 1)\<rparr>\<rparr>)"

text \<open>Lines 115 to 126.\<close>

definition read_FilterD :: "XMLNode \<Rightarrow> world \<Rightarrow> world" where
  "read_FilterD node w =
     markNodeParsed ''FilterD''
       (w\<lparr>obj := (obj w)\<lparr>m_fFilterD :=
              (case node_FilterD node of Some fD \<Rightarrow> fD | None \<Rightarrow> 1)\<rparr>\<rparr>)"

text \<open>
  Line 129: \<^verbatim>\<open>m_pSinogram && dynamic_cast<CFanFlatProjectionGeometry2D*>(m_pSinogram->getGeometry())\<close>;
  the cast of a null geometry pointer is null.
\<close>

definition is_fan_flat :: "CFloat32ProjectionData2D option \<Rightarrow> bool" where
  "is_fan_flat pSinogram =
     (case pSinogram of
        None \<Rightarrow> False
      | Some d \<Rightarrow> (case pd_getGeometry d of None \<Rightarrow> False | Some geom \<Rightarrow> isFanFlat geom))"

text \<open>Lines 128 to 132: \<^verbatim>\<open>getOptionBool("ShortScan", false)\<close> under the geometry test.\<close>

definition read_ShortScan :: "XMLNode \<Rightarrow> world \<Rightarrow> world" where
  "read_ShortScan node w =
     (if is_fan_flat (m_pSinogram (obj w))
      then markOptionParsed ''ShortScan''
             (w\<lparr>obj := (obj w)\<lparr>m_bShortScan :=
                    (case option_ShortScan node of Some b \<Rightarrow> b | None \<Rightarrow> False)\<rparr>\<rparr>)
      else w)"

text \<open>Lines 137 and 138, 163 and 164: a new engine object, not yet configured.\<close>

definition create_engine :: "world \<Rightarrow> world" where
  "create_engine w =
     (let (p, h) = new_FBP (hp w)
      in w\<lparr>obj := (obj w)\<lparr>m_pAlgo := Some p, m_bAlgoInit := False\<rparr>, hp := h\<rparr>)"

text \<open>
  \<^verbatim>\<open>initialize(const Config&)\<close>, lines 59 to 141, from the assertion on
  \<^verbatim>\<open>_cfg.self\<close> to the call of \<open>check\<close>.
\<close>

definition initialize_cfg ::
  "CData2DManager \<Rightarrow> base_setup \<Rightarrow> Config \<Rightarrow> world \<Rightarrow> (bool \<times> world) outcome" where
  "initialize_cfg manager base cfg w0 =
    (case cfg_self cfg of
       None \<Rightarrow> ASTRA_ASSERT_fails w0
     | Some node \<Rightarrow>
        let w1 = base_initialize base (clear_if_initialized w0)
        in if \<not> m_bIsInitialized (obj w1) then Inr (False, w1)
           else (case read_FilterSinogramId manager node (read_FilterType node w1) of
                   Inl f \<Rightarrow> Inl f
                 | Inr w2 \<Rightarrow>
                     Inr (check (create_engine
                            (read_ShortScan node (read_FilterD node (read_FilterParameter node w2)))))))"

section \<open>Programmatic initialization\<close>

text \<open>
  Lines 166 to 185: the copy of the caller's array. The array is the elements that can be
  read from the pointer; \<open>None\<close> is the null pointer. \<open>filter_element_count\<close> is
  \<^verbatim>\<open>iFilterElementCount\<close> of lines 168 to 177, with the unchecked dereference of
  \<open>m_pSinogram\<close> in the second branch.
\<close>

definition filter_element_count ::
  "E_FBPFILTER \<Rightarrow> int \<Rightarrow> CFloat32ProjectionData2D option \<Rightarrow> int option" where
  "filter_element_count eFilter iFilterWidth pSinogram =
     (if eFilter \<noteq> FILTER_SINOGRAM \<and> eFilter \<noteq> FILTER_RSINOGRAM
      then Some iFilterWidth
      else map_option pd_getAngleCount pSinogram)"

definition copy_raw_filter :: "E_FBPFILTER \<Rightarrow> real list option \<Rightarrow> int \<Rightarrow> world \<Rightarrow> world outcome" where
  "copy_raw_filter eFilter pfFilter iFilterWidth w =
    (case pfFilter of
       None \<Rightarrow> Inr (w\<lparr>obj := (obj w)\<lparr>m_pfFilter := None\<rparr>\<rparr>)
     | Some raw \<Rightarrow>
        (case filter_element_count eFilter iFilterWidth (m_pSinogram (obj w)) of
           None \<Rightarrow> abort NullPointerDereference w
         | Some iFilterElementCount \<Rightarrow>
             if iFilterElementCount < 0 then abort BadArrayNewLength w
             else if length raw < nat iFilterElementCount then abort OutOfBoundsRead w
             else
               let (a, h) = new_float_array (take (nat iFilterElementCount) raw) (hp w)
               in Inr (w\<lparr>obj := (obj w)\<lparr>m_pfFilter := Some a\<rparr>, hp := h\<rparr>)))"

text \<open>The programmatic \<open>initialize\<close>, lines 143 to 190.\<close>

definition initialize_prog ::
  "CFloat32ProjectionData2D option \<Rightarrow> CFloat32VolumeData2D option \<Rightarrow> E_FBPFILTER \<Rightarrow>
   real list option \<Rightarrow> int \<Rightarrow> int \<Rightarrow> real \<Rightarrow> world \<Rightarrow> (bool \<times> world) outcome" where
  "initialize_prog pSinogram pReconstruction eFilter pfFilter iFilterWidth iGPUIndex fFilterParameter w0 =
    (let w1 = clear_if_initialized w0;
         w2 = w1\<lparr>obj := (obj w1)\<lparr>m_pSinogram := pSinogram, m_pReconstruction := pReconstruction,
                                 m_iGPUIndex := iGPUIndex, m_eFilter := eFilter,
                                 m_iFilterWidth := iFilterWidth, m_bShortScan := False,
                                 m_bIsInitialized := True\<rparr>\<rparr>
     in case copy_raw_filter eFilter pfFilter iFilterWidth (create_engine w2) of
          Inl f \<Rightarrow> Inl f
        | Inr w3 \<Rightarrow> Inr (check (w3\<lparr>obj := (obj w3)\<lparr>m_fFilterParameter := fFilterParameter\<rparr>\<rparr>)))"

section \<open>Lazy engine binding\<close>

text \<open>
  The engine's two setters are outside the source file; an engine is its answers to
  them. \<^verbatim>\<open>setFilter\<close> receives the kind, the coefficients (or null), the width, the
  D factor and the parameter.
\<close>

record engine =
  setFilter :: "E_FBPFILTER \<Rightarrow> real list option \<Rightarrow> int \<Rightarrow> real \<Rightarrow> real \<Rightarrow> bool"
  setShortScan :: "bool \<Rightarrow> bool"

definition filter_coefficients :: "world \<Rightarrow> real list option" where
  "filter_coefficients w =
     (case m_pfFilter (obj w) of None \<Rightarrow> None | Some a \<Rightarrow> float_arrays (hp w) a)"

text \<open>
  \<^verbatim>\<open>initCUDAAlgorithm()\<close>, lines 193 to 209. The base class's member of the same name
  is called first and touches no member modelled here. The cast of \<open>m_pAlgo\<close> is null
  unless it points to a live engine object.
\<close>

definition initCUDAAlgorithm :: "engine \<Rightarrow> world \<Rightarrow> world outcome" where
  "initCUDAAlgorithm pFBP w =
    (case m_pAlgo (obj w) of
       None \<Rightarrow> abort NullPointerDereference w
     | Some p \<Rightarrow>
        if p \<notin> engines (hp w) then abort NullPointerDereference w
        else
          let s = obj w;
              ok = setFilter pFBP (m_eFilter s) (filter_coefficients w) (m_iFilterWidth s)
                     (m_fFilterD s) (m_fFilterParameter s)
          in if \<not> ok
             then ASTRA_ASSERT_fails
                    (ASTRA_ERROR ''CCudaFilteredBackProjectionAlgorithm: Failed to set filter'' w)
             else
               let ok2 = (ok \<and> setShortScan pFBP (m_bShortScan s))
               in if \<not> ok2
                  then Inr (ASTRA_ERROR
                              ''CCudaFilteredBackProjectionAlgorithm: Failed to set short-scan mode'' w)
                  else Inr w)"

section \<open>Sequences of initializations\<close>

datatype init_call =
    Declarative CData2DManager base_setup Config
  | Programmatic "CFloat32ProjectionData2D option" "CFloat32VolumeData2D option" E_FBPFILTER
      "real list option" int int real

fun run_init :: "init_call \<Rightarrow> world \<Rightarrow> (bool \<times> world) outcome" where
  "run_init (Declarative manager base cfg) w = initialize_cfg manager base cfg w"
| "run_init (Programmatic pSinogram pReconstruction eFilter pfFilter iFilterWidth iGPUIndex fFilterParameter) w =
     initialize_prog pSinogram pReconstruction eFilter pfFilter iFilterWidth iGPUIndex fFilterParameter w"

fun run_inits :: "init_call list \<Rightarrow> world \<Rightarrow> world outcome" where
  "run_inits [] w = Inr w"
| "run_inits (c # cs) w =
     (case run_init c w of Inl f \<Rightarrow> Inl f | Inr (ok, w') \<Rightarrow> run_inits cs w')"

text \<open>
  Ownership of the filter buffer: the live \<^verbatim>\<open>float\<close> arrays are exactly the one
  \<open>m_pfFilter\<close> points to (none when it is null), and an instance that holds a buffer
  is flagged initialized.
\<close>

definition owned_buffers :: "world \<Rightarrow> nat set" where
  "owned_buffers w = (case m_pfFilter (obj w) of None \<Rightarrow> {} | Some a \<Rightarrow> {a})"

definition buffer_owned :: "world \<Rightarrow> bool" where
  "buffer_owned w =
     (dom (float_arrays (hp w)) = owned_buffers w
      \<and> (m_pfFilter (obj w) \<noteq> None \<longrightarrow> m_bIsInitialized (obj w)))"

text \<open>A call supplies a filter buffer when it reaches the allocation with data to copy.\<close>

fun supplies_buffer :: "init_call \<Rightarrow> bool" where
  "supplies_buffer (Declarative manager base cfg) =
     (base_initialize_ok base \<and>
      (case cfg_self cfg of None \<Rightarrow> False | Some node \<Rightarrow> node_FilterSinogramId node \<noteq> None))"
| "supplies_buffer (Programmatic pSinogram pReconstruction eFilter pfFilter iFilterWidth iGPUIndex fFilterParameter) =
     (pfFilter \<noteq> None)"

text \<open>
  What the caller has after a call that returned: the answer, the configured flag of the
  instance, and the log.
\<close>

definition verdict :: "(bool \<times> world) outcome \<Rightarrow> (bool \<times> bool \<times> string list) option" where
  "verdict r =
     (case r of Inl f \<Rightarrow> None | Inr (ok, w') \<Rightarrow> Some (ok, m_bIsInitialized (obj w'), logged w'))"

text \<open>What the caller has of the short-scan flag after a call that returned.\<close>

definition short_scan_after :: "(bool \<times> world) outcome \<Rightarrow> (bool \<times> bool) option" where
  "short_scan_after r =
     (case r of Inl f \<Rightarrow> None | Inr (ok, w') \<Rightarrow> Some (ok, m_bShortScan (obj w')))"

section \<open>Sample inputs\<close>

definition sample_geometry :: CProjectionGeometry2D where
  "sample_geometry = \<lparr>isFanFlat = False, getDetectorCount = 3, getProjectionAngleCount = 2\<rparr>"

definition sample_sinogram :: CFloat32ProjectionData2D where
  "sample_sinogram =
     \<lparr>pd_isInitialized = True, pd_getGeometry = Some sample_geometry, pd_getAngleCount = 2,
      pd_getDataConst = [1, 2, 3, 4, 5, 6]\<rparr>"

definition sample_volume :: CFloat32VolumeData2D where
  "sample_volume = \<lparr>vd_isInitialized = True\<rparr>"

definition sample_manager :: CData2DManager where
  "sample_manager = (\<lambda>i. if i = 1 then Some (ProjectionData sample_sinogram)
                          else if i = 2 then Some (VolumeData sample_volume) else None)"

definition sample_base :: base_setup where
  "sample_base =
     \<lparr>base_initialize_ok = True, base_pSinogram = Some sample_sinogram,
      base_pReconstruction = Some sample_volume, base_iGPUIndex = 0,
      base_iPixelSuperSampling = 1\<rparr>"

definition fan_sinogram :: CFloat32ProjectionData2D where
  "fan_sinogram = sample_sinogram\<lparr>pd_getGeometry := Some (sample_geometry\<lparr>isFanFlat := True\<rparr>)\<rparr>"

definition fan_base :: base_setup where
  "fan_base = sample_base\<lparr>base_pSinogram := Some fan_sinogram\<rparr>"

definition sample_node :: XMLNode where
  "sample_node =
     \<lparr>node_FilterType = Some ''Sinogram'', node_FilterSinogramId = Some 1,
      node_FilterParameter = None, node_FilterD = None, option_ShortScan = Some True\<rparr>"

definition sample_members :: algorithm where
  "sample_members =
     \<lparr>m_bIsInitialized = False, m_pSinogram = None, m_pReconstruction = None, m_iGPUIndex = - 1,
      m_iPixelSuperSampling = 1, m_pAlgo = None, m_bAlgoInit = False, m_eFilter = FILTER_NONE,
      m_pfFilter = None, m_iFilterWidth = 0, m_fFilterParameter = 0, m_fFilterD = 0,
      m_bShortScan = False\<rparr>"

definition sample_world :: world where
  "sample_world = new_instance sample_members"

definition valid_world :: world where
  "valid_world =
     sample_world\<lparr>obj := (obj sample_world)\<lparr>m_pSinogram := Some sample_sinogram,
                                             m_pReconstruction := Some sample_volume\<rparr>\<rparr>"

definition bound_world :: world where
  "bound_world =
     valid_world\<lparr>obj := (obj valid_world)\<lparr>m_pAlgo := Some 0\<rparr>,
                 hp := (hp valid_world)\<lparr>engines := {0}, next_addr := 1\<rparr>\<rparr>"

text \<open>
  A new instance whose storage for \<open>m_bShortScan\<close>, which the constructor does not
  assign, holds true.
\<close>

definition stale_world :: world where
  "stale_world = new_instance (sample_members\<lparr>m_bShortScan := True\<rparr>)"

definition configured_world :: world where
  "configured_world =
     valid_world\<lparr>obj := (obj valid_world)\<lparr>m_bIsInitialized := True, m_eFilter := FILTER_PROJECTION,
                                           m_pfFilter := Some 0, m_iFilterWidth := 2,
                                           m_fFilterParameter := 5, m_fFilterD := 2,
                                           m_bShortScan := True\<rparr>,
                 hp := \<lparr>float_arrays = [0 \<mapsto> [1, 2]], engines = {}, next_addr = 1\<rparr>\<rparr>"

definition sample_calls :: "init_call list" where
  "sample_calls =
     [Programmatic (Some sample_sinogram) (Some sample_volume) FILTER_SINOGRAM (Some [7, 8, 9, 10])
        3 0 (- 1),
      Declarative sample_manager sample_base \<lparr>cfg_self = Some sample_node\<rparr>]"

definition refusing_engine :: engine where
  "refusing_engine = \<lparr>setFilter = (\<lambda>k c n d p. False), setShortScan = (\<lambda>b. True)\<rparr>"

definition no_short_scan_engine :: engine where
  "no_short_scan_engine = \<lparr>setFilter = (\<lambda>k c n d p. True), setShortScan = (\<lambda>b. False)\<rparr>"

section \<open>Properties of the filter catalog\<close>

lemma of_char_tolower:
  "(of_char (tolower c) :: nat) =
     (if 65 \<le> (of_char c :: nat) \<and> (of_char c :: nat) \<le> 90 then of_char c + 32 else of_char c)"
  by (simp add: tolower_def Let_def)

lemma of_char_zero_iff: "((of_char c :: nat) = 0) = (c = CHR 0x00)"
proof -
  have "(of_char (CHR 0x00) :: nat) = 0" by simp
  then show ?thesis using of_char_eq_iff[of c "CHR 0x00", where ?'a = nat] by auto
qed

lemma tolower_nonzero: "c \<noteq> CHR 0x00 \<Longrightarrow> (of_char (tolower c) :: nat) \<noteq> 0"
  using of_char_zero_iff[of c] by (auto simp: of_char_tolower)

text \<open>On C strings, \<open>strcasecmp\<close> answers 0 exactly for equal lower-cased strings.\<close>

lemma strcasecmp_eq_iff:
  "CHR 0x00 \<notin> set a \<Longrightarrow> CHR 0x00 \<notin> set b \<Longrightarrow>
   (strcasecmp a b = 0) = (lowercase a = lowercase b)"
proof (induction a b rule: strcasecmp.induct)
  case 1
  show ?case by simp
next
  case (2 b bs)
  then show ?case using tolower_nonzero[of b] by (auto simp: lowercase_def)
next
  case (3 a as)
  then show ?case using tolower_nonzero[of a] by (auto simp: lowercase_def)
next
  case (4 a as b bs)
  then show ?case by (auto simp: lowercase_def)
qed

lemma c_str_no_NUL: "CHR 0x00 \<notin> set (c_str s)"
  unfolding c_str_def by (induction s) auto

lemma compare_literal:
  "CHR 0x00 \<notin> set s \<Longrightarrow> CHR 0x00 \<notin> set name \<Longrightarrow>
   stringCompareLowerCase s name = matches_name s name"
  by (simp add: stringCompareLowerCase_def matches_name_def strcasecmp_eq_iff)

lemma lower_names:
  "lowercase ''ram-lak'' = ''ram-lak''"
  "lowercase ''shepp-logan'' = ''shepp-logan''"
  "lowercase ''cosine'' = ''cosine''"
  "lowercase ''hamming'' = ''hamming''"
  "lowercase ''hann'' = ''hann''"
  "lowercase ''none'' = ''none''"
  "lowercase ''tukey'' = ''tukey''"
  "lowercase ''lanczos'' = ''lanczos''"
  "lowercase ''triangular'' = ''triangular''"
  "lowercase ''gaussian'' = ''gaussian''"
  "lowercase ''barlett-hann'' = ''barlett-hann''"
  "lowercase ''blackman'' = ''blackman''"
  "lowercase ''nuttall'' = ''nuttall''"
  "lowercase ''blackman-harris'' = ''blackman-harris''"
  "lowercase ''blackman-nuttall'' = ''blackman-nuttall''"
  "lowercase ''flat-top'' = ''flat-top''"
  "lowercase ''kaiser'' = ''kaiser''"
  "lowercase ''parzen'' = ''parzen''"
  "lowercase ''projection'' = ''projection''"
  "lowercase ''sinogram'' = ''sinogram''"
  "lowercase ''rprojection'' = ''rprojection''"
  "lowercase ''rsinogram'' = ''rsinogram''"
  "lowercase ''bartlett-hann'' = ''bartlett-hann''"
  by (simp_all add: tolower_def lowercase_def)

lemma convert_chain:
  assumes nul: "CHR 0x00 \<notin> set s"
  shows "convertStringToFilter s = compare_chain s (lowercase s)"
proof -
  define l where "l = lowercase s"
  have tests: "\<And>lit. CHR 0x00 \<notin> set lit \<Longrightarrow> stringCompareLowerCase s lit = (l = lowercase lit)"
    using nul by (simp add: compare_literal matches_name_def l_def)
  have lit:
    "stringCompareLowerCase s ''ram-lak'' = (l = ''ram-lak'')"
    "stringCompareLowerCase s ''shepp-logan'' = (l = ''shepp-logan'')"
    "stringCompareLowerCase s ''cosine'' = (l = ''cosine'')"
    "stringCompareLowerCase s ''hamming'' = (l = ''hamming'')"
    "stringCompareLowerCase s ''hann'' = (l = ''hann'')"
    "stringCompareLowerCase s ''none'' = (l = ''none'')"
    "stringCompareLowerCase s ''tukey'' = (l = ''tukey'')"
    "stringCompareLowerCase s ''lanczos'' = (l = ''lanczos'')"
    "stringCompareLowerCase s ''triangular'' = (l = ''triangular'')"
    "stringCompareLowerCase s ''gaussian'' = (l = ''gaussian'')"
    "stringCompareLowerCase s ''barlett-hann'' = (l = ''barlett-hann'')"
    "stringCompareLowerCase s ''blackman'' = (l = ''blackman'')"
    "stringCompareLowerCase s ''nuttall'' = (l = ''nuttall'')"
    "stringCompareLowerCase s ''blackman-harris'' = (l = ''blackman-harris'')"
    "stringCompareLowerCase s ''blackman-nuttall'' = (l = ''blackman-nuttall'')"
    "stringCompareLowerCase s ''flat-top'' = (l = ''flat-top'')"
    "stringCompareLowerCase s ''kaiser'' = (l = ''kaiser'')"
    "stringCompareLowerCase s ''parzen'' = (l = ''parzen'')"
    "stringCompareLowerCase s ''projection'' = (l = ''projection'')"
    "stringCompareLowerCase s ''sinogram'' = (l = ''sinogram'')"
    "stringCompareLowerCase s ''rprojection'' = (l = ''rprojection'')"
    "stringCompareLowerCase s ''rsinogram'' = (l = ''rsinogram'')"
    by (simp_all add: tests lower_names)
  show ?thesis
    unfolding convertStringToFilter_def compare_chain_def l_def[symmetric] by (simp only: lit)
qed

lemma chain_catalog:
  "list_all (\<lambda>(name, kind). name = ''bartlett-hann'' \<or> compare_chain s (lowercase name) = (kind, []))
     published_catalog"
  by (simp add: published_catalog_def compare_chain_def lower_names)

text \<open>
  Every case variant of every published name but \<open>bartlett-hann\<close> is resolved to its
  kind, and nothing is logged.
\<close>

lemma convert_case_variant:
  assumes cat: "(name, kind) \<in> set published_catalog" and nb: "name \<noteq> ''bartlett-hann''"
    and nul: "CHR 0x00 \<notin> set s" and m: "matches_name s name"
  shows "convertStringToFilter s = (kind, [])"
proof -
  from chain_catalog[of s] cat nb have "compare_chain s (lowercase name) = (kind, [])"
    unfolding list_all_iff by blast
  moreover from m have "lowercase s = lowercase name"
    by (simp add: matches_name_def)
  ultimately show ?thesis
    using convert_chain[OF nul] by simp
qed

text \<open>
  Every C string that matches no published name, and is not a case variant of the
  literal \<open>barlett-hann\<close> of the source either, yields \<open>FILTER_NONE\<close> with one
  diagnostic.
\<close>

lemma convert_unmatched:
  assumes nul: "CHR 0x00 \<notin> set s" and out: "\<not> in_published_catalog s"
    and nb: "\<not> matches_name s ''barlett-hann''"
  shows "convertStringToFilter s = (FILTER_NONE, [convert_failure_message s])"
proof -
  define l where "l = lowercase s"
  have m: "\<And>lit. matches_name s lit = (l = lowercase lit)"
    by (simp add: matches_name_def l_def)
  from out nb show ?thesis
    unfolding convert_chain[OF nul] compare_chain_def l_def[symmetric]
      in_published_catalog_def published_catalog_def
    by (simp add: m lower_names)
qed

lemma convert_RAM_LAK: "convertStringToFilter ''RAM-LAK'' = (FILTER_RAMLAK, [])"
proof -
  have "lowercase ''RAM-LAK'' = ''ram-lak''"
    by (simp add: lowercase_def tolower_def char_of_eq_iff)
  then show ?thesis
    by (simp add: convert_chain compare_chain_def)
qed

text \<open>
  C3. Claimed: every name of the published catalog, in any case, is resolved to its
  kind; in particular \<open>bartlett-hann\<close> to the Bartlett-Hann kind. The source compares
  against the literal \<open>barlett-hann\<close>: the published name \<open>bartlett-hann\<close> falls through
  the whole chain, is logged as a failed conversion and yields \<open>FILTER_NONE\<close>.
\<close>

theorem published_bartlett_hann_falls_through:
  "map_of published_catalog ''bartlett-hann'' = Some FILTER_BARTLETTHANN
   \<and> convertStringToFilter ''bartlett-hann''
       = (FILTER_NONE, [convert_failure_message ''bartlett-hann''])"
  by (simp add: published_catalog_def convert_chain compare_chain_def lower_names)

text \<open>
  C9. Claimed: every input that matches no catalog name is logged and yields the
  \<open>none\<close> kind. The string \<open>barlett-hann\<close> matches no published name, yet the source
  resolves it to \<open>FILTER_BARTLETTHANN\<close> and logs nothing (the same misspelt literal as in
  C3). Lemma \<open>convert_unmatched\<close> shows that this is the only such input.
\<close>

theorem misspelt_name_resolves_silently:
  "\<not> in_published_catalog ''barlett-hann''
   \<and> convertStringToFilter ''barlett-hann'' = (FILTER_BARTLETTHANN, [])"
  by (simp add: in_published_catalog_def published_catalog_def matches_name_def
      convert_chain compare_chain_def lower_names)

section \<open>Properties of the validator\<close>

lemma check_returns: "fst (check w) = validator_preconditions (obj w)"
  by (auto simp: check_def validator_preconditions_def projection_ready_def reconstruction_ready_def
      buffer_present_if_custom_def custom_data_kinds_def Let_def split: option.splits)

lemma kinds_partition: "k \<in> set analytic_kinds \<longleftrightarrow> k \<notin> set custom_data_kinds"
  by (cases k) (simp_all add: analytic_kinds_def custom_data_kinds_def)

lemmas sample_defs = sample_geometry_def sample_sinogram_def sample_volume_def sample_manager_def
  sample_base_def sample_node_def sample_members_def sample_world_def valid_world_def
  bound_world_def new_instance_def constructor_def empty_heap_def fan_sinogram_def fan_base_def
  configured_world_def sample_calls_def stale_world_def

text \<open>
  C1. \<open>check()\<close> returns true exactly when the five preconditions hold: both datasets
  present and initialized, a buffer present whenever the kind is a custom-data kind,
  device index at least \<open>-1\<close>, supersampling at least \<open>0\<close>. With all else valid the
  answer is \<open>-1 \<le> g\<close> for a device index \<open>g\<close> (false for \<open>-2\<close>, true for \<open>-1\<close> and
  from \<open>0\<close> on); an analytic kind passes with a null buffer, a custom-data kind does
  not.
\<close>

theorem check_true_iff_preconditions:
  "(fst (check w) = validator_preconditions (obj w))
   \<and> (projection_ready (obj w) \<and> reconstruction_ready (obj w) \<and> buffer_present_if_custom (obj w)
        \<and> 0 \<le> m_iPixelSuperSampling (obj w)
      \<longrightarrow> fst (check (w\<lparr>obj := (obj w)\<lparr>m_iGPUIndex := g\<rparr>\<rparr>)) = (- 1 \<le> g))
   \<and> (kind \<in> set analytic_kinds \<and> projection_ready (obj w) \<and> reconstruction_ready (obj w)
        \<and> - 1 \<le> m_iGPUIndex (obj w) \<and> 0 \<le> m_iPixelSuperSampling (obj w)
      \<longrightarrow> fst (check (w\<lparr>obj := (obj w)\<lparr>m_eFilter := kind, m_pfFilter := None\<rparr>\<rparr>)))
   \<and> (kind' \<in> set custom_data_kinds
      \<longrightarrow> \<not> fst (check (w\<lparr>obj := (obj w)\<lparr>m_eFilter := kind', m_pfFilter := None\<rparr>\<rparr>)))"
proof -
  have a: "fst (check w) = validator_preconditions (obj w)"
    by (rule check_returns)
  have b: "fst (check (w\<lparr>obj := (obj w)\<lparr>m_iGPUIndex := g\<rparr>\<rparr>)) = (- 1 \<le> g)"
    if "projection_ready (obj w)" "reconstruction_ready (obj w)" "buffer_present_if_custom (obj w)"
       "0 \<le> m_iPixelSuperSampling (obj w)"
    using that
    by (simp add: check_returns validator_preconditions_def projection_ready_def
        reconstruction_ready_def buffer_present_if_custom_def)
  have c: "fst (check (w\<lparr>obj := (obj w)\<lparr>m_eFilter := kind, m_pfFilter := None\<rparr>\<rparr>))"
    if "kind \<in> set analytic_kinds" "projection_ready (obj w)" "reconstruction_ready (obj w)"
       "- 1 \<le> m_iGPUIndex (obj w)" "0 \<le> m_iPixelSuperSampling (obj w)"
    using that kinds_partition[of kind]
    by (simp add: check_returns validator_preconditions_def projection_ready_def
        reconstruction_ready_def buffer_present_if_custom_def)
  have d: "\<not> fst (check (w\<lparr>obj := (obj w)\<lparr>m_eFilter := kind', m_pfFilter := None\<rparr>\<rparr>))"
    if "kind' \<in> set custom_data_kinds"
    using that
    by (simp add: check_returns validator_preconditions_def buffer_present_if_custom_def)
  from a b c d show ?thesis by blast
qed

theorem check_true_iff_preconditions_witness:
  "validator_preconditions (obj valid_world)
   \<and> fst (check valid_world)
   \<and> \<not> fst (check (valid_world\<lparr>obj := (obj valid_world)\<lparr>m_iGPUIndex := - 2\<rparr>\<rparr>))
   \<and> fst (check (valid_world\<lparr>obj := (obj valid_world)\<lparr>m_iGPUIndex := - 1\<rparr>\<rparr>))
   \<and> fst (check (valid_world\<lparr>obj := (obj valid_world)\<lparr>m_iGPUIndex := 7\<rparr>\<rparr>))
   \<and> FILTER_HANN \<in> set analytic_kinds
   \<and> fst (check (valid_world\<lparr>obj := (obj valid_world)\<lparr>m_eFilter := FILTER_HANN, m_pfFilter := None\<rparr>\<rparr>))
   \<and> FILTER_SINOGRAM \<in> set custom_data_kinds
   \<and> \<not> fst (check (valid_world\<lparr>obj := (obj valid_world)\<lparr>m_eFilter := FILTER_SINOGRAM, m_pfFilter := None\<rparr>\<rparr>))"
proof -
  have ready: "projection_ready (obj valid_world)" "reconstruction_ready (obj valid_world)"
    "buffer_present_if_custom (obj valid_world)" "0 \<le> m_iPixelSuperSampling (obj valid_world)"
    "- 1 \<le> m_iGPUIndex (obj valid_world)"
    by (simp_all add: sample_defs projection_ready_def reconstruction_ready_def
        buffer_present_if_custom_def custom_data_kinds_def)
  have kinds: "FILTER_HANN \<in> set analytic_kinds" "FILTER_SINOGRAM \<in> set custom_data_kinds"
    by (simp_all add: analytic_kinds_def custom_data_kinds_def)
  have pre: "validator_preconditions (obj valid_world)"
    using ready by (simp add: validator_preconditions_def)
  show ?thesis
    using ready kinds pre
      check_true_iff_preconditions[of valid_world "- 2" FILTER_HANN FILTER_SINOGRAM]
      check_true_iff_preconditions[of valid_world "- 1" FILTER_HANN FILTER_SINOGRAM]
      check_true_iff_preconditions[of valid_world "7" FILTER_HANN FILTER_SINOGRAM]
    by simp
qed

section \<open>Properties of the initializations\<close>

lemma initialize_cfg_unfold:
  "base_initialize_ok base \<Longrightarrow>
   initialize_cfg manager base \<lparr>cfg_self = Some node\<rparr> w =
     (case read_FilterSinogramId manager node
             (read_FilterType node (base_initialize base (clear_if_initialized w))) of
        Inl f \<Rightarrow> Inl f
      | Inr w2 \<Rightarrow>
          Inr (check (create_engine
                 (read_ShortScan node (read_FilterD node (read_FilterParameter node w2))))))"
  by (simp add: initialize_cfg_def Let_def base_initialize_def)

lemma initialize_cfg_base_failed:
  "\<not> base_initialize_ok base \<Longrightarrow>
   initialize_cfg manager base \<lparr>cfg_self = Some node\<rparr> w =
     Inr (False, base_initialize base (clear_if_initialized w))"
  by (simp add: initialize_cfg_def Let_def base_initialize_def)

subsection \<open>What each step leaves alone\<close>

lemma check_keeps:
  "hp (snd (check w)) = hp w"
  "parsed_nodes (snd (check w)) = parsed_nodes w"
  "parsed_options (snd (check w)) = parsed_options w"
  "m_pfFilter (obj (snd (check w))) = m_pfFilter (obj w)"
  "m_iFilterWidth (obj (snd (check w))) = m_iFilterWidth (obj w)"
  "m_bShortScan (obj (snd (check w))) = m_bShortScan (obj w)"
  "m_bIsInitialized (obj w) \<Longrightarrow> m_bIsInitialized (obj (snd (check w)))"
  by (simp_all add: check_def Let_def config_error_def ASTRA_ERROR_def split: option.splits)

lemma create_engine_keeps:
  "float_arrays (hp (create_engine w)) = float_arrays (hp w)"
  "parsed_options (create_engine w) = parsed_options w"
  "logged (create_engine w) = logged w"
  "m_pfFilter (obj (create_engine w)) = m_pfFilter (obj w)"
  "m_iFilterWidth (obj (create_engine w)) = m_iFilterWidth (obj w)"
  "m_bShortScan (obj (create_engine w)) = m_bShortScan (obj w)"
  "m_bIsInitialized (obj (create_engine w)) = m_bIsInitialized (obj w)"
  "m_pSinogram (obj (create_engine w)) = m_pSinogram (obj w)"
  by (simp_all add: create_engine_def new_FBP_def Let_def)

lemma read_FilterParameter_keeps:
  "hp (read_FilterParameter node w) = hp w"
  "parsed_options (read_FilterParameter node w) = parsed_options w"
  "m_pfFilter (obj (read_FilterParameter node w)) = m_pfFilter (obj w)"
  "m_iFilterWidth (obj (read_FilterParameter node w)) = m_iFilterWidth (obj w)"
  "m_bShortScan (obj (read_FilterParameter node w)) = m_bShortScan (obj w)"
  "m_bIsInitialized (obj (read_FilterParameter node w)) = m_bIsInitialized (obj w)"
  "m_pSinogram (obj (read_FilterParameter node w)) = m_pSinogram (obj w)"
  by (simp_all add: read_FilterParameter_def markNodeParsed_def)

lemma read_FilterD_keeps:
  "hp (read_FilterD node w) = hp w"
  "parsed_options (read_FilterD node w) = parsed_options w"
  "m_pfFilter (obj (read_FilterD node w)) = m_pfFilter (obj w)"
  "m_iFilterWidth (obj (read_FilterD node w)) = m_iFilterWidth (obj w)"
  "m_bShortScan (obj (read_FilterD node w)) = m_bShortScan (obj w)"
  "m_bIsInitialized (obj (read_FilterD node w)) = m_bIsInitialized (obj w)"
  "m_pSinogram (obj (read_FilterD node w)) = m_pSinogram (obj w)"
  by (simp_all add: read_FilterD_def markNodeParsed_def)

lemma read_ShortScan_keeps:
  "hp (read_ShortScan node w) = hp w"
  "m_pfFilter (obj (read_ShortScan node w)) = m_pfFilter (obj w)"
  "m_iFilterWidth (obj (read_ShortScan node w)) = m_iFilterWidth (obj w)"
  "m_bIsInitialized (obj (read_ShortScan node w)) = m_bIsInitialized (obj w)"
  "m_pSinogram (obj (read_ShortScan node w)) = m_pSinogram (obj w)"
  by (simp_all add: read_ShortScan_def markOptionParsed_def)

lemma read_FilterType_keeps:
  "hp (read_FilterType node w) = hp w"
  "parsed_options (read_FilterType node w) = parsed_options w"
  "m_pfFilter (obj (read_FilterType node w)) = m_pfFilter (obj w)"
  "m_bShortScan (obj (read_FilterType node w)) = m_bShortScan (obj w)"
  "m_bIsInitialized (obj (read_FilterType node w)) = m_bIsInitialized (obj w)"
  "m_pSinogram (obj (read_FilterType node w)) = m_pSinogram (obj w)"
  by (simp_all add: read_FilterType_def markNodeParsed_def split_def Let_def)

lemma base_initialize_keeps:
  "hp (base_initialize base w) = hp w"
  "parsed_options (base_initialize base w) = parsed_options w"
  "logged (base_initialize base w) = logged w"
  "m_pfFilter (obj (base_initialize base w)) = m_pfFilter (obj w)"
  "m_bShortScan (obj (base_initialize base w)) = m_bShortScan (obj w)"
  "m_bIsInitialized (obj (base_initialize base w)) = base_initialize_ok base"
  "m_pSinogram (obj (base_initialize base w)) = base_pSinogram base"
  by (simp_all add: base_initialize_def)

lemma read_FilterSinogramId_keeps:
  assumes "read_FilterSinogramId manager node w = Inr w2"
  shows "parsed_options w2 = parsed_options w"
    and "m_bShortScan (obj w2) = m_bShortScan (obj w)"
    and "m_bIsInitialized (obj w2) = m_bIsInitialized (obj w)"
    and "m_pSinogram (obj w2) = m_pSinogram (obj w)"
  using assms
  by (auto simp: read_FilterSinogramId_def markNodeParsed_def abort_def new_float_array_def Let_def
      split: option.splits if_splits)

lemma clear_if_initialized_keeps:
  "parsed_options (clear_if_initialized w) = parsed_options w"
  "logged (clear_if_initialized w) = logged w"
  "\<not> m_bIsInitialized (obj (clear_if_initialized w))"
  "m_bIsInitialized (obj w) \<or> \<not> m_bShortScan (obj w) \<Longrightarrow> \<not> m_bShortScan (obj (clear_if_initialized w))"
  by (auto simp: clear_if_initialized_def clear_def)

lemmas keeps = check_keeps create_engine_keeps read_FilterParameter_keeps read_FilterD_keeps
  read_ShortScan_keeps read_FilterType_keeps base_initialize_keeps clear_if_initialized_keeps


subsection \<open>The filter buffer of the declarative path\<close>

lemma product_nonneg: "0 \<le> a \<Longrightarrow> 0 \<le> b \<Longrightarrow> \<not> a * b < (0::int)"
  by (simp add: mult_nonneg_nonneg not_less)

lemma int_mul_in_range:
  assumes "0 \<le> a" and "0 \<le> b" and "a * b < 2 ^ 31"
  shows "int_mul a b = Some (a * b)"
proof -
  define p where "p = a * b"
  from assms(1,2) have "0 \<le> p" unfolding p_def by (rule mult_nonneg_nonneg)
  moreover from assms(3) have "p < 2 ^ 31" unfolding p_def .
  ultimately have "- (2 ^ 31) \<le> p \<and> p < 2 ^ 31" by simp
  then show ?thesis by (simp add: int_mul_def p_def)
qed

lemma memcpy_size_exact:
  assumes "int_mul width count = Some n" and "0 \<le> n"
  shows "memcpy_size width count = 4 * n"
proof -
  from assms have n: "n = width * count" "n < 2 ^ 31"
    by (auto simp: int_mul_def split: if_splits)
  have "memcpy_size width count = (4 * (width * count)) mod 2 ^ 64"
    unfolding memcpy_size_def
    by (metis (no_types, opaque_lifting) mod_mult_eq mod_mult_right_eq mult.assoc)
  then have "memcpy_size width count = (4 * n) mod 2 ^ 64"
    by (simp only: n(1))
  moreover from n(2) assms(2) have "0 \<le> 4 * n" "4 * n < 2 ^ 64"
    by simp_all
  ultimately show ?thesis
    by (simp only: mod_pos_pos_trivial)
qed

lemma read_FilterSinogramId_copies:
  assumes "node_FilterSinogramId node = Some ident"
    and "manager ident = Some (ProjectionData d)"
    and "pd_getGeometry d = Some geom"
    and "0 \<le> getDetectorCount geom" and "0 \<le> getProjectionAngleCount geom"
    and "getDetectorCount geom * getProjectionAngleCount geom < 2 ^ 31"
    and "length (pd_getDataConst d) = nat (getDetectorCount geom * getProjectionAngleCount geom)"
  shows "\<exists>w2. read_FilterSinogramId manager node w = Inr w2
           \<and> m_pfFilter (obj w2) = Some (next_addr (hp w))
           \<and> float_arrays (hp w2) (next_addr (hp w)) = Some (pd_getDataConst d)
           \<and> m_iFilterWidth (obj w2) = getDetectorCount geom"
  using assms int_mul_in_range[OF assms(4) assms(5) assms(6)]
    product_nonneg[OF assms(4) assms(5)]
  by (simp add: read_FilterSinogramId_def Let_def new_float_array_def markNodeParsed_def)

lemma read_FilterSinogramId_absent:
  "node_FilterSinogramId node = None \<Longrightarrow>
   \<exists>w2. read_FilterSinogramId manager node w = Inr w2
        \<and> m_pfFilter (obj w2) = None \<and> m_iFilterWidth (obj w2) = 0"
  by (simp add: read_FilterSinogramId_def markNodeParsed_def)

lemma declarative_buffer_copied:
  assumes ok: "base_initialize_ok base"
    and ident: "node_FilterSinogramId node = Some ident"
    and d: "manager ident = Some (ProjectionData d)"
    and geom: "pd_getGeometry d = Some geom"
    and W: "getDetectorCount geom = W" and A: "getProjectionAngleCount geom = A"
    and range: "0 \<le> W" "0 \<le> A" "W * A < 2 ^ 31"
    and len: "length (pd_getDataConst d) = nat (W * A)"
  shows "\<exists>ok w' a. initialize_cfg manager base \<lparr>cfg_self = Some node\<rparr> w = Inr (ok, w')
           \<and> m_pfFilter (obj w') = Some a \<and> float_arrays (hp w') a = Some (pd_getDataConst d)
           \<and> m_iFilterWidth (obj w') = W"
proof -
  let ?w1 = "read_FilterType node (base_initialize base (clear_if_initialized w))"
  from assms obtain w2 where w2: "read_FilterSinogramId manager node ?w1 = Inr w2"
    "m_pfFilter (obj w2) = Some (next_addr (hp ?w1))"
    "float_arrays (hp w2) (next_addr (hp ?w1)) = Some (pd_getDataConst d)"
    "m_iFilterWidth (obj w2) = W"
    using read_FilterSinogramId_copies[of node ident manager d geom ?w1] by auto
  let ?r = "check (create_engine (read_ShortScan node (read_FilterD node (read_FilterParameter node w2))))"
  from ok w2(1) have "initialize_cfg manager base \<lparr>cfg_self = Some node\<rparr> w = Inr (fst ?r, snd ?r)"
    by (simp add: initialize_cfg_unfold)
  moreover have "m_pfFilter (obj (snd ?r)) = Some (next_addr (hp ?w1))"
    "float_arrays (hp (snd ?r)) (next_addr (hp ?w1)) = Some (pd_getDataConst d)"
    "m_iFilterWidth (obj (snd ?r)) = W"
    using w2 by (simp_all add: keeps)
  ultimately show ?thesis
    by blast
qed

lemma declarative_buffer_absent:
  assumes ok: "base_initialize_ok base" and absent: "node_FilterSinogramId node = None"
  shows "\<exists>ok w'. initialize_cfg manager base \<lparr>cfg_self = Some node\<rparr> w = Inr (ok, w')
           \<and> m_pfFilter (obj w') = None \<and> m_iFilterWidth (obj w') = 0"
proof -
  let ?w1 = "read_FilterType node (base_initialize base (clear_if_initialized w))"
  from absent obtain w2 where w2: "read_FilterSinogramId manager node ?w1 = Inr w2"
    "m_pfFilter (obj w2) = None" "m_iFilterWidth (obj w2) = 0"
    using read_FilterSinogramId_absent[of node manager ?w1] by auto
  let ?r = "check (create_engine (read_ShortScan node (read_FilterD node (read_FilterParameter node w2))))"
  from ok w2(1) have "initialize_cfg manager base \<lparr>cfg_self = Some node\<rparr> w = Inr (fst ?r, snd ?r)"
    by (simp add: initialize_cfg_unfold)
  moreover have "m_pfFilter (obj (snd ?r)) = None" "m_iFilterWidth (obj (snd ?r)) = 0"
    using w2 by (simp_all add: keeps)
  ultimately show ?thesis
    by blast
qed

text \<open>
  C6. In the declarative path, a \<open>FilterSinogramId\<close> that names a projection dataset of
  detector count \<open>W\<close> and angle count \<open>A\<close> (a well-formed one: its buffer has \<open>W * A\<close>
  elements, and the product is an \<^verbatim>\<open>int\<close>) leaves the instance with a buffer of its
  own on the free store that holds exactly the \<open>W * A\<close> elements of the dataset, and
  with \<open>W\<close> as the filter width. Without the field the buffer is null and the width 0.
\<close>

theorem declarative_filter_buffer:
  "(base_initialize_ok base \<and> node_FilterSinogramId node = Some ident
      \<and> manager ident = Some (ProjectionData d) \<and> pd_getGeometry d = Some geom
      \<and> getDetectorCount geom = W \<and> getProjectionAngleCount geom = A
      \<and> 0 \<le> W \<and> 0 \<le> A \<and> W * A < 2 ^ 31 \<and> length (pd_getDataConst d) = nat (W * A)
    \<longrightarrow> (\<exists>ok w' a buf. initialize_cfg manager base \<lparr>cfg_self = Some node\<rparr> w = Inr (ok, w')
           \<and> m_pfFilter (obj w') = Some a \<and> float_arrays (hp w') a = Some buf
           \<and> length buf = nat (W * A) \<and> buf = pd_getDataConst d
           \<and> m_iFilterWidth (obj w') = W))
   \<and> (base_initialize_ok base \<and> node_FilterSinogramId node = None
    \<longrightarrow> (\<exists>ok w'. initialize_cfg manager base \<lparr>cfg_self = Some node\<rparr> w = Inr (ok, w')
           \<and> m_pfFilter (obj w') = None \<and> m_iFilterWidth (obj w') = 0))"
proof (intro conjI impI)
  assume h: "base_initialize_ok base \<and> node_FilterSinogramId node = Some ident
      \<and> manager ident = Some (ProjectionData d) \<and> pd_getGeometry d = Some geom
      \<and> getDetectorCount geom = W \<and> getProjectionAngleCount geom = A
      \<and> 0 \<le> W \<and> 0 \<le> A \<and> W * A < 2 ^ 31 \<and> length (pd_getDataConst d) = nat (W * A)"
  then obtain ok w' a where
    "initialize_cfg manager base \<lparr>cfg_self = Some node\<rparr> w = Inr (ok, w')"
    "m_pfFilter (obj w') = Some a" "float_arrays (hp w') a = Some (pd_getDataConst d)"
    "m_iFilterWidth (obj w') = W"
    using declarative_buffer_copied[of base node ident manager d geom W A w] by blast
  with h show "\<exists>ok w' a buf. initialize_cfg manager base \<lparr>cfg_self = Some node\<rparr> w = Inr (ok, w')
           \<and> m_pfFilter (obj w') = Some a \<and> float_arrays (hp w') a = Some buf
           \<and> length buf = nat (W * A) \<and> buf = pd_getDataConst d
           \<and> m_iFilterWidth (obj w') = W"
    by blast
next
  assume "base_initialize_ok base \<and> node_FilterSinogramId node = None"
  then show "\<exists>ok w'. initialize_cfg manager base \<lparr>cfg_self = Some node\<rparr> w = Inr (ok, w')
           \<and> m_pfFilter (obj w') = None \<and> m_iFilterWidth (obj w') = 0"
    using declarative_buffer_absent[of base node manager w] by blast
qed

theorem declarative_filter_buffer_witness:
  "(\<exists>ok w'. initialize_cfg sample_manager sample_base \<lparr>cfg_self = Some sample_node\<rparr> sample_world
               = Inr (ok, w')
            \<and> filter_coefficients w' = Some [1, 2, 3, 4, 5, 6]
            \<and> m_iFilterWidth (obj w') = 3)
   \<and> (\<exists>ok w'. initialize_cfg sample_manager sample_base
                 \<lparr>cfg_self = Some (sample_node\<lparr>node_FilterSinogramId := None\<rparr>)\<rparr> sample_world
               = Inr (ok, w')
            \<and> m_pfFilter (obj w') = None
            \<and> m_iFilterWidth (obj w') = 0)"
proof -
  have present: "base_initialize_ok sample_base \<and> node_FilterSinogramId sample_node = Some 1
      \<and> sample_manager 1 = Some (ProjectionData sample_sinogram)
      \<and> pd_getGeometry sample_sinogram = Some sample_geometry
      \<and> getDetectorCount sample_geometry = 3 \<and> getProjectionAngleCount sample_geometry = 2
      \<and> (0::int) \<le> 3 \<and> (0::int) \<le> 2 \<and> (3::int) * 2 < 2 ^ 31
      \<and> length (pd_getDataConst sample_sinogram) = nat (3 * 2)"
    by (simp add: sample_defs)
  have absent: "base_initialize_ok sample_base
      \<and> node_FilterSinogramId (sample_node\<lparr>node_FilterSinogramId := None\<rparr>) = None"
    by (simp add: sample_defs)
  have data: "pd_getDataConst sample_sinogram = [1, 2, 3, 4, 5, 6]"
    by (simp add: sample_defs)
  from present
    declarative_filter_buffer[where base = sample_base and node = sample_node and ident = 1
      and manager = sample_manager and d = sample_sinogram and geom = sample_geometry
      and W = 3 and A = 2 and w = sample_world]
  have a: "\<exists>ok w'. initialize_cfg sample_manager sample_base \<lparr>cfg_self = Some sample_node\<rparr> sample_world
               = Inr (ok, w')
            \<and> filter_coefficients w' = Some [1, 2, 3, 4, 5, 6]
            \<and> m_iFilterWidth (obj w') = 3"
    unfolding data by (auto simp: filter_coefficients_def)
  from absent
    declarative_filter_buffer[where base = sample_base
      and node = "sample_node\<lparr>node_FilterSinogramId := None\<rparr>" and w = sample_world
      and manager = sample_manager]
  have b: "\<exists>ok w'. initialize_cfg sample_manager sample_base
                 \<lparr>cfg_self = Some (sample_node\<lparr>node_FilterSinogramId := None\<rparr>)\<rparr> sample_world
               = Inr (ok, w')
            \<and> m_pfFilter (obj w') = None
            \<and> m_iFilterWidth (obj w') = 0"
    by blast
  from a b show ?thesis by blast
qed


subsection \<open>The filter buffer of the programmatic path\<close>

lemma copy_raw_filter_copies:
  assumes "filter_element_count eFilter iFilterWidth (m_pSinogram (obj w)) = Some k"
    and "0 \<le> k" and "nat k \<le> length raw"
  shows "\<exists>w3. copy_raw_filter eFilter (Some raw) iFilterWidth w = Inr w3
           \<and> filter_coefficients w3 = Some (take (nat k) raw)"
  using assms
  by (simp add: copy_raw_filter_def new_float_array_def filter_coefficients_def Let_def)

lemma initialize_prog_unfold:
  "initialize_prog pSinogram pReconstruction eFilter pfFilter iFilterWidth iGPUIndex fFilterParameter w0 =
    (case copy_raw_filter eFilter pfFilter iFilterWidth
            (create_engine ((clear_if_initialized w0)\<lparr>obj := (obj (clear_if_initialized w0))
               \<lparr>m_pSinogram := pSinogram, m_pReconstruction := pReconstruction,
                m_iGPUIndex := iGPUIndex, m_eFilter := eFilter,
                m_iFilterWidth := iFilterWidth, m_bShortScan := False,
                m_bIsInitialized := True\<rparr>\<rparr>)) of
          Inl f \<Rightarrow> Inl f
        | Inr w3 \<Rightarrow> Inr (check (w3\<lparr>obj := (obj w3)\<lparr>m_fFilterParameter := fFilterParameter\<rparr>\<rparr>)))"
  by (simp add: initialize_prog_def Let_def)

lemma check_keeps_coefficients: "filter_coefficients (snd (check w)) = filter_coefficients w"
  by (simp add: filter_coefficients_def check_keeps split: option.splits)

text \<open>
  C4. In the programmatic path with a raw array, the owned buffer holds the first
  \<open>iFilterWidth\<close> elements of the array for every kind that is not per-angle-indexed,
  and the first \<open>getAngleCount()\<close> elements for \<open>FILTER_SINOGRAM\<close> and
  \<open>FILTER_RSINOGRAM\<close>, whatever the width argument. The array must hold that many
  elements, and the count must not be negative.
\<close>

theorem programmatic_copy_length:
  "(eFilter \<notin> set per_angle_kinds \<and> 0 \<le> iFilterWidth \<and> nat iFilterWidth \<le> length raw
    \<longrightarrow> (\<exists>ok w' buf. initialize_prog pSinogram pReconstruction eFilter (Some raw) iFilterWidth
                        iGPUIndex fFilterParameter w = Inr (ok, w')
           \<and> filter_coefficients w' = Some buf
           \<and> length buf = nat iFilterWidth \<and> buf = take (nat iFilterWidth) raw))
   \<and> (eFilter \<in> set per_angle_kinds \<and> pSinogram = Some sino
       \<and> 0 \<le> pd_getAngleCount sino \<and> nat (pd_getAngleCount sino) \<le> length raw
    \<longrightarrow> (\<exists>ok w' buf. initialize_prog pSinogram pReconstruction eFilter (Some raw) iFilterWidth
                        iGPUIndex fFilterParameter w = Inr (ok, w')
           \<and> filter_coefficients w' = Some buf
           \<and> length buf = nat (pd_getAngleCount sino)
           \<and> buf = take (nat (pd_getAngleCount sino)) raw))"
proof -
  let ?w2 = "create_engine ((clear_if_initialized w)\<lparr>obj := (obj (clear_if_initialized w))
               \<lparr>m_pSinogram := pSinogram, m_pReconstruction := pReconstruction,
                m_iGPUIndex := iGPUIndex, m_eFilter := eFilter,
                m_iFilterWidth := iFilterWidth, m_bShortScan := False,
                m_bIsInitialized := True\<rparr>\<rparr>)"
  have sino: "m_pSinogram (obj ?w2) = pSinogram"
    by (simp add: create_engine_keeps)
  have main: "\<exists>ok w' buf. initialize_prog pSinogram pReconstruction eFilter (Some raw) iFilterWidth
                        iGPUIndex fFilterParameter w = Inr (ok, w')
           \<and> filter_coefficients w' = Some buf
           \<and> length buf = nat k \<and> buf = take (nat k) raw"
    if n: "filter_element_count eFilter iFilterWidth pSinogram = Some k"
      and k: "0 \<le> k" "nat k \<le> length raw" for k
  proof -
    from n sino have "filter_element_count eFilter iFilterWidth (m_pSinogram (obj ?w2)) = Some k"
      by simp
    from copy_raw_filter_copies[OF this k] obtain w3 where
      w3: "copy_raw_filter eFilter (Some raw) iFilterWidth ?w2 = Inr w3"
        "filter_coefficients w3 = Some (take (nat k) raw)"
      by blast
    let ?r = "check (w3\<lparr>obj := (obj w3)\<lparr>m_fFilterParameter := fFilterParameter\<rparr>\<rparr>)"
    have "initialize_prog pSinogram pReconstruction eFilter (Some raw) iFilterWidth
            iGPUIndex fFilterParameter w = Inr (fst ?r, snd ?r)"
      using w3(1) by (simp add: initialize_prog_unfold)
    moreover have "filter_coefficients (snd ?r) = Some (take (nat k) raw)"
      using w3(2)
      by (simp add: check_keeps_coefficients) (simp add: filter_coefficients_def split: option.splits)
    moreover have "length (take (nat k) raw) = nat k"
      using k by simp
    ultimately show ?thesis
      by blast
  qed
  have a: "\<exists>ok w' buf. initialize_prog pSinogram pReconstruction eFilter (Some raw) iFilterWidth
                        iGPUIndex fFilterParameter w = Inr (ok, w')
           \<and> filter_coefficients w' = Some buf
           \<and> length buf = nat iFilterWidth \<and> buf = take (nat iFilterWidth) raw"
    if "eFilter \<notin> set per_angle_kinds" "0 \<le> iFilterWidth" "nat iFilterWidth \<le> length raw"
  proof (rule main)
    show "filter_element_count eFilter iFilterWidth pSinogram = Some iFilterWidth"
      using that(1) by (simp add: filter_element_count_def per_angle_kinds_def)
  qed (use that in simp_all)
  have b: "\<exists>ok w' buf. initialize_prog pSinogram pReconstruction eFilter (Some raw) iFilterWidth
                        iGPUIndex fFilterParameter w = Inr (ok, w')
           \<and> filter_coefficients w' = Some buf
           \<and> length buf = nat (pd_getAngleCount sino)
           \<and> buf = take (nat (pd_getAngleCount sino)) raw"
    if "eFilter \<in> set per_angle_kinds" "pSinogram = Some sino"
      "0 \<le> pd_getAngleCount sino" "nat (pd_getAngleCount sino) \<le> length raw"
  proof (rule main)
    show "filter_element_count eFilter iFilterWidth pSinogram = Some (pd_getAngleCount sino)"
      using that(1,2) by (auto simp: filter_element_count_def per_angle_kinds_def)
  qed (use that in simp_all)
  from a b show ?thesis by blast
qed

theorem programmatic_copy_length_witness:
  "(\<exists>ok w'. initialize_prog (Some sample_sinogram) (Some sample_volume) FILTER_PROJECTION
              (Some [7, 8, 9, 10]) 3 0 (- 1) sample_world = Inr (ok, w')
           \<and> filter_coefficients w' = Some [7, 8, 9])
   \<and> (\<exists>ok w'. initialize_prog (Some sample_sinogram) (Some sample_volume) FILTER_SINOGRAM
              (Some [7, 8, 9, 10]) 3 0 (- 1) sample_world = Inr (ok, w')
           \<and> filter_coefficients w' = Some [7, 8])"
proof -
  have p: "FILTER_PROJECTION \<notin> set per_angle_kinds \<and> (0::int) \<le> 3
           \<and> nat 3 \<le> length [7, 8, 9, 10 :: real]"
    by (simp add: per_angle_kinds_def)
  have q: "FILTER_SINOGRAM \<in> set per_angle_kinds \<and> Some sample_sinogram = Some sample_sinogram
           \<and> 0 \<le> pd_getAngleCount sample_sinogram
           \<and> nat (pd_getAngleCount sample_sinogram) \<le> length [7, 8, 9, 10 :: real]"
    by (simp add: per_angle_kinds_def sample_defs)
  have n: "pd_getAngleCount sample_sinogram = 2"
    by (simp add: sample_defs)
  have t: "take (nat 3) [7, 8, 9, 10 :: real] = [7, 8, 9]" "take (nat 2) [7, 8, 9, 10 :: real] = [7, 8]"
    by (simp_all add: eval_nat_numeral)
  from p programmatic_copy_length[where eFilter = FILTER_PROJECTION and iFilterWidth = 3
      and raw = "[7, 8, 9, 10]" and pSinogram = "Some sample_sinogram"
      and pReconstruction = "Some sample_volume" and iGPUIndex = 0 and fFilterParameter = "- 1"
      and w = sample_world]
  have a: "\<exists>ok w'. initialize_prog (Some sample_sinogram) (Some sample_volume) FILTER_PROJECTION
              (Some [7, 8, 9, 10]) 3 0 (- 1) sample_world = Inr (ok, w')
           \<and> filter_coefficients w' = Some [7, 8, 9]"
    unfolding t by blast
  from q programmatic_copy_length[where eFilter = FILTER_SINOGRAM and iFilterWidth = 3
      and raw = "[7, 8, 9, 10]" and pSinogram = "Some sample_sinogram" and sino = sample_sinogram
      and pReconstruction = "Some sample_volume" and iGPUIndex = 0 and fFilterParameter = "- 1"
      and w = sample_world]
  have b: "\<exists>ok w'. initialize_prog (Some sample_sinogram) (Some sample_volume) FILTER_SINOGRAM
              (Some [7, 8, 9, 10]) 3 0 (- 1) sample_world = Inr (ok, w')
           \<and> filter_coefficients w' = Some [7, 8]"
    unfolding n t by blast
  from a b show ?thesis by blast
qed

subsection \<open>The unchecked lookup\<close>

text \<open>
  C10. In the declarative path, a \<open>FilterSinogramId\<close> whose lookup gives no projection
  dataset (an unknown id, or an object of another class) ends the call in a null
  pointer dereference; no configuration error is reported for it.
\<close>

theorem unresolved_filter_id_dereferences_null:
  "node_FilterSinogramId node = Some ident \<and> base_initialize_ok base
   \<and> (manager ident = None \<or> (\<exists>v. manager ident = Some (VolumeData v)))
   \<longrightarrow> initialize_cfg manager base \<lparr>cfg_self = Some node\<rparr> w
        = Inl (NullPointerDereference,
               logged (read_FilterType node (base_initialize base (clear_if_initialized w))))"
  by (auto simp: initialize_cfg_unfold read_FilterSinogramId_def abort_def)

theorem unresolved_filter_id_dereferences_null_witness:
  "initialize_cfg sample_manager sample_base
     \<lparr>cfg_self = Some (sample_node\<lparr>node_FilterSinogramId := Some 5\<rparr>)\<rparr> sample_world
     = Inl (NullPointerDereference, [])
   \<and> initialize_cfg sample_manager sample_base
     \<lparr>cfg_self = Some (sample_node\<lparr>node_FilterSinogramId := Some 2\<rparr>)\<rparr> sample_world
     = Inl (NullPointerDereference, [])"
proof -
  have m: "sample_manager 5 = None" "sample_manager 2 = Some (VolumeData sample_volume)"
    by (simp_all add: sample_manager_def)
  have ok: "base_initialize_ok sample_base"
    by (simp add: sample_base_def)
  have "lowercase ''Sinogram'' = ''sinogram''"
    by (simp add: lowercase_def tolower_def char_of_eq_iff)
  then have conv: "convertStringToFilter (c_str ''Sinogram'') = (FILTER_SINOGRAM, [])"
    by (simp add: c_str_def convert_chain compare_chain_def)
  have lg: "logged (read_FilterType (sample_node\<lparr>node_FilterSinogramId := Some i\<rparr>)
              (base_initialize sample_base (clear_if_initialized sample_world))) = []" for i
    by (simp add: read_FilterType_def markNodeParsed_def base_initialize_def
        clear_if_initialized_def sample_defs conv)
  show ?thesis
    using m ok lg
      unresolved_filter_id_dereferences_null[of "sample_node\<lparr>node_FilterSinogramId := Some 5\<rparr>" 5
        sample_base sample_manager sample_world]
      unresolved_filter_id_dereferences_null[of "sample_node\<lparr>node_FilterSinogramId := Some 2\<rparr>" 2
        sample_base sample_manager sample_world]
    by simp
qed

section \<open>Properties of the engine binding\<close>

text \<open>
  C7. With a live engine, a refused \<open>setFilter\<close> logs its diagnostic and aborts the
  call; a refused \<open>setShortScan\<close> after an accepted \<open>setFilter\<close> logs its diagnostic
  and the call returns, the instance unchanged.
\<close>

theorem engine_binding_failures:
  "(m_pAlgo (obj w) = Some p \<and> p \<in> engines (hp w)
      \<and> \<not> setFilter pFBP (m_eFilter (obj w)) (filter_coefficients w) (m_iFilterWidth (obj w))
            (m_fFilterD (obj w)) (m_fFilterParameter (obj w))
     \<longrightarrow> initCUDAAlgorithm pFBP w
           = Inl (AssertionFailed,
                  logged w @ [''CCudaFilteredBackProjectionAlgorithm: Failed to set filter'']))
   \<and> (m_pAlgo (obj w) = Some p \<and> p \<in> engines (hp w)
      \<and> setFilter pFBP (m_eFilter (obj w)) (filter_coefficients w) (m_iFilterWidth (obj w))
            (m_fFilterD (obj w)) (m_fFilterParameter (obj w))
      \<and> \<not> setShortScan pFBP (m_bShortScan (obj w))
     \<longrightarrow> initCUDAAlgorithm pFBP w
           = Inr (w\<lparr>logged := logged w
                      @ [''CCudaFilteredBackProjectionAlgorithm: Failed to set short-scan mode'']\<rparr>))"
  by (simp add: initCUDAAlgorithm_def Let_def ASTRA_ASSERT_fails_def abort_def ASTRA_ERROR_def)

theorem engine_binding_failures_witness:
  "initCUDAAlgorithm refusing_engine bound_world
     = Inl (AssertionFailed, [''CCudaFilteredBackProjectionAlgorithm: Failed to set filter''])
   \<and> initCUDAAlgorithm no_short_scan_engine bound_world
     = Inr (bound_world\<lparr>logged :=
              [''CCudaFilteredBackProjectionAlgorithm: Failed to set short-scan mode'']\<rparr>)"
proof -
  have live: "m_pAlgo (obj bound_world) = Some 0" "0 \<in> engines (hp bound_world)"
    "logged bound_world = []"
    by (simp_all add: sample_defs)
  show ?thesis
    using live engine_binding_failures[of bound_world 0 refusing_engine]
      engine_binding_failures[of bound_world 0 no_short_scan_engine]
    by (simp add: refusing_engine_def no_short_scan_engine_def)
qed

section \<open>The configured flag after a failed check\<close>

lemma check_failure_reported:
  "\<not> fst (check w) \<Longrightarrow>
   \<exists>msg. logged (snd (check w)) = logged w @ [''Configuration Error in FBP_CUDA: '' @ msg]
        \<and> obj (snd (check w)) = obj w"
  by (auto simp: check_def Let_def config_error_def ASTRA_ERROR_def split: option.splits)

lemma initialize_prog_flag:
  assumes "initialize_prog pSinogram pReconstruction eFilter pfFilter iFilterWidth iGPUIndex
             fFilterParameter w = Inr (ok, w')"
  shows "m_bIsInitialized (obj w')"
proof -
  let ?w2 = "create_engine ((clear_if_initialized w)\<lparr>obj := (obj (clear_if_initialized w))
               \<lparr>m_pSinogram := pSinogram, m_pReconstruction := pReconstruction,
                m_iGPUIndex := iGPUIndex, m_eFilter := eFilter,
                m_iFilterWidth := iFilterWidth, m_bShortScan := False,
                m_bIsInitialized := True\<rparr>\<rparr>)"
  from assms obtain w3 where w3: "copy_raw_filter eFilter pfFilter iFilterWidth ?w2 = Inr w3"
    and r: "check (w3\<lparr>obj := (obj w3)\<lparr>m_fFilterParameter := fFilterParameter\<rparr>\<rparr>) = (ok, w')"
    by (auto simp: initialize_prog_unfold split: sum.splits)
  from w3 have "m_bIsInitialized (obj w3)"
    by (auto simp: copy_raw_filter_def abort_def new_float_array_def Let_def create_engine_keeps
        split: option.splits if_splits)
  then have "m_bIsInitialized (obj (snd (check (w3\<lparr>obj := (obj w3)\<lparr>m_fFilterParameter := fFilterParameter\<rparr>\<rparr>))))"
    by (simp add: check_keeps)
  with r show ?thesis by simp
qed

lemma initialize_cfg_flag:
  assumes "initialize_cfg manager base \<lparr>cfg_self = Some node\<rparr> w = Inr (ok, w')"
    and "base_initialize_ok base"
  shows "m_bIsInitialized (obj w')"
proof -
  let ?w1 = "read_FilterType node (base_initialize base (clear_if_initialized w))"
  from assms obtain w2 where w2: "read_FilterSinogramId manager node ?w1 = Inr w2"
    and r: "check (create_engine (read_ShortScan node (read_FilterD node (read_FilterParameter node w2))))
            = (ok, w')"
    by (auto simp: initialize_cfg_unfold split: sum.splits)
  from read_FilterSinogramId_keeps(3)[OF w2] assms(2) have "m_bIsInitialized (obj w2)"
    by (simp add: keeps)
  then have "m_bIsInitialized (obj (snd (check (create_engine (read_ShortScan node
               (read_FilterD node (read_FilterParameter node w2)))))))"
    by (simp add: keeps)
  with r show ?thesis by simp
qed

lemma convert_Sinogram: "convertStringToFilter (c_str ''Sinogram'') = (FILTER_SINOGRAM, [])"
proof -
  have "lowercase ''Sinogram'' = ''sinogram''"
    by (simp add: lowercase_def tolower_def char_of_eq_iff)
  then show ?thesis
    by (simp add: c_str_def convert_chain compare_chain_def)
qed

text \<open>
  C8. Claimed: when a precondition of \<open>check()\<close> is violated, the call reports a
  configuration error naming what was violated and leaves the instance not marked
  configured, on both paths. The report is made (lemma \<open>check_failure_reported\<close>), but
  both paths set \<open>m_bIsInitialized\<close> before they call \<open>check()\<close> (lines 70 and 161),
  and a failing \<open>check()\<close> does not reset it: the call answers false and the instance
  stays flagged (lemmas \<open>initialize_prog_flag\<close>, \<open>initialize_cfg_flag\<close>). Evaluated
  here on a programmatic call with device index \<open>-2\<close> and on a declarative call with
  kind \<open>Sinogram\<close> and no \<open>FilterSinogramId\<close>.
\<close>

theorem failed_check_leaves_flag_set:
  "verdict (initialize_prog (Some sample_sinogram) (Some sample_volume) FILTER_RAMLAK None 0 (- 2) (- 1)
             sample_world)
     = Some (False, True,
             [''Configuration Error in FBP_CUDA: GPUIndex must be a non-negative integer or -1.''])
   \<and> verdict (initialize_cfg sample_manager sample_base
                \<lparr>cfg_self = Some (sample_node\<lparr>node_FilterSinogramId := None\<rparr>)\<rparr> sample_world)
     = Some (False, True, [''Configuration Error in FBP_CUDA: Invalid filter pointer.''])"
proof -
  have a: "verdict (initialize_prog (Some sample_sinogram) (Some sample_volume) FILTER_RAMLAK None 0 (- 2) (- 1)
             sample_world)
     = Some (False, True,
             [''Configuration Error in FBP_CUDA: GPUIndex must be a non-negative integer or -1.''])"
    by (simp add: verdict_def initialize_prog_def clear_if_initialized_def create_engine_def
        new_FBP_def copy_raw_filter_def check_def config_error_def ASTRA_ERROR_def Let_def
        sample_defs)
  have b: "verdict (initialize_cfg sample_manager sample_base
                \<lparr>cfg_self = Some (sample_node\<lparr>node_FilterSinogramId := None\<rparr>)\<rparr> sample_world)
     = Some (False, True, [''Configuration Error in FBP_CUDA: Invalid filter pointer.''])"
    by (simp add: verdict_def initialize_cfg_def clear_if_initialized_def base_initialize_def
        read_FilterType_def read_FilterSinogramId_def read_FilterParameter_def read_FilterD_def
        read_ShortScan_def is_fan_flat_def markNodeParsed_def create_engine_def
        new_FBP_def check_def config_error_def ASTRA_ERROR_def Let_def
        sample_defs convert_Sinogram)
  from a b show ?thesis by blast
qed

section \<open>The short-scan flag\<close>

lemma steps_ignore_ShortScan:
  "read_FilterType (node\<lparr>option_ShortScan := x\<rparr>) w = read_FilterType node w"
  "read_FilterSinogramId manager (node\<lparr>option_ShortScan := x\<rparr>) w = read_FilterSinogramId manager node w"
  "read_FilterParameter (node\<lparr>option_ShortScan := x\<rparr>) w = read_FilterParameter node w"
  "read_FilterD (node\<lparr>option_ShortScan := x\<rparr>) w = read_FilterD node w"
  by (simp_all add: read_FilterType_def read_FilterSinogramId_def read_FilterParameter_def
      read_FilterD_def)

lemma read_ShortScan_skipped:
  "\<not> is_fan_flat (m_pSinogram (obj w)) \<Longrightarrow> read_ShortScan node w = w"
  by (simp add: read_ShortScan_def)

lemma read_ShortScan_taken:
  "is_fan_flat (m_pSinogram (obj w)) \<Longrightarrow>
   m_bShortScan (obj (read_ShortScan node w)) = (case option_ShortScan node of Some b \<Rightarrow> b | None \<Rightarrow> False)
   \<and> parsed_options (read_ShortScan node w) = parsed_options w @ [''ShortScan'']"
  by (simp add: read_ShortScan_def markOptionParsed_def)

lemma sinogram_at_ShortScan:
  assumes "read_FilterSinogramId manager node
             (read_FilterType node (base_initialize base (clear_if_initialized w))) = Inr w2"
  shows "m_pSinogram (obj (read_FilterD node (read_FilterParameter node w2))) = base_pSinogram base"
    and "parsed_options (read_FilterD node (read_FilterParameter node w2)) = parsed_options w"
    and "m_bShortScan (obj (read_FilterD node (read_FilterParameter node w2)))
         = m_bShortScan (obj (clear_if_initialized w))"
  using read_FilterSinogramId_keeps[OF assms] by (simp_all add: keeps)

lemma initialize_cfg_ignores_ShortScan:
  assumes "\<not> is_fan_flat (base_pSinogram base)"
  shows "initialize_cfg manager base \<lparr>cfg_self = Some (node\<lparr>option_ShortScan := x\<rparr>)\<rparr> w
         = initialize_cfg manager base \<lparr>cfg_self = Some node\<rparr> w"
proof (cases "base_initialize_ok base")
  case False
  then show ?thesis by (simp add: initialize_cfg_base_failed)
next
  case True
  let ?w1 = "read_FilterType node (base_initialize base (clear_if_initialized w))"
  show ?thesis
  proof (cases "read_FilterSinogramId manager node ?w1")
    case (Inl f)
    with True show ?thesis by (simp add: initialize_cfg_unfold steps_ignore_ShortScan)
  next
    case (Inr w2)
    let ?w3 = "read_FilterD node (read_FilterParameter node w2)"
    from sinogram_at_ShortScan(1)[OF Inr] assms have "\<not> is_fan_flat (m_pSinogram (obj ?w3))"
      by simp
    then have "read_ShortScan (node\<lparr>option_ShortScan := x\<rparr>) ?w3 = read_ShortScan node ?w3"
      by (simp add: read_ShortScan_skipped)
    with True Inr show ?thesis by (simp add: initialize_cfg_unfold steps_ignore_ShortScan)
  qed
qed

lemma initialize_cfg_ShortScan_untouched:
  assumes nf: "\<not> is_fan_flat (base_pSinogram base)"
    and r: "initialize_cfg manager base \<lparr>cfg_self = Some node\<rparr> w = Inr (ok, w')"
  shows "m_bShortScan (obj w') = m_bShortScan (obj (clear_if_initialized w))"
    and "parsed_options w' = parsed_options w"
proof -
  have "m_bShortScan (obj w') = m_bShortScan (obj (clear_if_initialized w))
        \<and> parsed_options w' = parsed_options w"
  proof (cases "base_initialize_ok base")
    case False
    with r show ?thesis by (auto simp: initialize_cfg_base_failed keeps)
  next
    case True
    let ?w1 = "read_FilterType node (base_initialize base (clear_if_initialized w))"
    from r True obtain w2 where w2: "read_FilterSinogramId manager node ?w1 = Inr w2"
      and c: "check (create_engine (read_ShortScan node (read_FilterD node (read_FilterParameter node w2))))
              = (ok, w')"
      by (auto simp: initialize_cfg_unfold split: sum.splits)
    let ?w3 = "read_FilterD node (read_FilterParameter node w2)"
    from sinogram_at_ShortScan(1)[OF w2] nf have skip: "read_ShortScan node ?w3 = ?w3"
      by (simp add: read_ShortScan_skipped)
    from c have "w' = snd (check (create_engine (read_ShortScan node ?w3)))"
      by simp
    then show ?thesis
      using sinogram_at_ShortScan(2,3)[OF w2] by (simp add: skip check_keeps create_engine_keeps)
  qed
  then show "m_bShortScan (obj w') = m_bShortScan (obj (clear_if_initialized w))"
    and "parsed_options w' = parsed_options w"
    by simp_all
qed

lemma initialize_cfg_ShortScan_read:
  assumes ff: "is_fan_flat (base_pSinogram base)" and ok: "base_initialize_ok base"
    and r: "initialize_cfg manager base \<lparr>cfg_self = Some node\<rparr> w = Inr (ok', w')"
  shows "m_bShortScan (obj w') = (case option_ShortScan node of Some b \<Rightarrow> b | None \<Rightarrow> False)"
    and "parsed_options w' = parsed_options w @ [''ShortScan'']"
proof -
  let ?w1 = "read_FilterType node (base_initialize base (clear_if_initialized w))"
  from r ok obtain w2 where w2: "read_FilterSinogramId manager node ?w1 = Inr w2"
    and c: "check (create_engine (read_ShortScan node (read_FilterD node (read_FilterParameter node w2))))
            = (ok', w')"
    by (auto simp: initialize_cfg_unfold split: sum.splits)
  let ?w3 = "read_FilterD node (read_FilterParameter node w2)"
  from sinogram_at_ShortScan(1)[OF w2] ff have "is_fan_flat (m_pSinogram (obj ?w3))"
    by simp
  note taken = read_ShortScan_taken[OF this, of node]
  from c have w': "w' = snd (check (create_engine (read_ShortScan node ?w3)))"
    by simp
  show "m_bShortScan (obj w') = (case option_ShortScan node of Some b \<Rightarrow> b | None \<Rightarrow> False)"
    using taken by (simp add: w' check_keeps create_engine_keeps)
  show "parsed_options w' = parsed_options w @ [''ShortScan'']"
    using taken sinogram_at_ShortScan(2)[OF w2] by (simp add: w' check_keeps create_engine_keeps)
qed

lemma initialize_prog_ShortScan:
  assumes "initialize_prog pSinogram pReconstruction eFilter pfFilter iFilterWidth iGPUIndex
             fFilterParameter w = Inr (ok, w')"
  shows "\<not> m_bShortScan (obj w')"
proof -
  let ?w2 = "create_engine ((clear_if_initialized w)\<lparr>obj := (obj (clear_if_initialized w))
               \<lparr>m_pSinogram := pSinogram, m_pReconstruction := pReconstruction,
                m_iGPUIndex := iGPUIndex, m_eFilter := eFilter,
                m_iFilterWidth := iFilterWidth, m_bShortScan := False,
                m_bIsInitialized := True\<rparr>\<rparr>)"
  from assms obtain w3 where w3: "copy_raw_filter eFilter pfFilter iFilterWidth ?w2 = Inr w3"
    and r: "check (w3\<lparr>obj := (obj w3)\<lparr>m_fFilterParameter := fFilterParameter\<rparr>\<rparr>) = (ok, w')"
    by (auto simp: initialize_prog_unfold split: sum.splits)
  from w3 have "\<not> m_bShortScan (obj w3)"
    by (auto simp: copy_raw_filter_def abort_def new_float_array_def Let_def create_engine_keeps
        split: option.splits if_splits)
  then have "\<not> m_bShortScan (obj (snd (check (w3\<lparr>obj := (obj w3)\<lparr>m_fFilterParameter := fFilterParameter\<rparr>\<rparr>))))"
    by (simp add: check_keeps)
  with r show ?thesis by simp
qed

text \<open>
  What holds of the flag on every input. When the bound geometry is not fan-beam
  flat-detector, the outcome of the declarative path is the same for every content of
  the \<open>ShortScan\<close> option, present or absent, the option is not marked as parsed, and
  the flag is false after the call provided it was false before it or the instance was
  configured (and so cleared). When the geometry is fan-beam flat-detector the option is
  read, with default false. The programmatic path leaves the flag false on every input.
\<close>

lemma ShortScan_read_only_for_fan_flat:
  "(\<not> is_fan_flat (base_pSinogram base)
     \<longrightarrow> initialize_cfg manager base \<lparr>cfg_self = Some (node\<lparr>option_ShortScan := x\<rparr>)\<rparr> w
         = initialize_cfg manager base \<lparr>cfg_self = Some (node\<lparr>option_ShortScan := y\<rparr>)\<rparr> w)
   \<and> (\<not> is_fan_flat (base_pSinogram base)
       \<and> (m_bIsInitialized (obj w) \<or> m_bShortScan (obj w) = False)
       \<and> initialize_cfg manager base \<lparr>cfg_self = Some node\<rparr> w = Inr (ok, w')
     \<longrightarrow> m_bShortScan (obj w') = False \<and> parsed_options w' = parsed_options w)
   \<and> (is_fan_flat (base_pSinogram base) \<and> base_initialize_ok base
       \<and> initialize_cfg manager base \<lparr>cfg_self = Some node\<rparr> w = Inr (ok, w')
     \<longrightarrow> m_bShortScan (obj w') = (case option_ShortScan node of Some b \<Rightarrow> b | None \<Rightarrow> False)
         \<and> parsed_options w' = parsed_options w @ [''ShortScan''])
   \<and> (initialize_prog pSinogram pReconstruction eFilter pfFilter iFilterWidth iGPUIndex
         fFilterParameter w = Inr (okp, wp)
     \<longrightarrow> m_bShortScan (obj wp) = False)"
proof (intro conjI impI)
  assume "\<not> is_fan_flat (base_pSinogram base)"
  then show "initialize_cfg manager base \<lparr>cfg_self = Some (node\<lparr>option_ShortScan := x\<rparr>)\<rparr> w
         = initialize_cfg manager base \<lparr>cfg_self = Some (node\<lparr>option_ShortScan := y\<rparr>)\<rparr> w"
    by (simp add: initialize_cfg_ignores_ShortScan)
next
  assume h: "\<not> is_fan_flat (base_pSinogram base)
       \<and> (m_bIsInitialized (obj w) \<or> m_bShortScan (obj w) = False)
       \<and> initialize_cfg manager base \<lparr>cfg_self = Some node\<rparr> w = Inr (ok, w')"
  then have "\<not> m_bShortScan (obj (clear_if_initialized w))"
    by (intro clear_if_initialized_keeps(4)) auto
  with h initialize_cfg_ShortScan_untouched[of base manager node w ok w']
  show "m_bShortScan (obj w') = False" and "parsed_options w' = parsed_options w"
    by simp_all
next
  assume h: "is_fan_flat (base_pSinogram base) \<and> base_initialize_ok base
       \<and> initialize_cfg manager base \<lparr>cfg_self = Some node\<rparr> w = Inr (ok, w')"
  with initialize_cfg_ShortScan_read[of base manager node w ok w']
  show "m_bShortScan (obj w') = (case option_ShortScan node of Some b \<Rightarrow> b | None \<Rightarrow> False)"
    and "parsed_options w' = parsed_options w @ [''ShortScan'']"
    by simp_all
next
  assume "initialize_prog pSinogram pReconstruction eFilter pfFilter iFilterWidth iGPUIndex
         fFilterParameter w = Inr (okp, wp)"
  from initialize_prog_ShortScan[OF this] show "m_bShortScan (obj wp) = False"
    by simp
qed

lemmas step_defs = clear_if_initialized_def base_initialize_def
  read_FilterType_def read_FilterSinogramId_def read_FilterParameter_def read_FilterD_def
  read_ShortScan_def is_fan_flat_def markNodeParsed_def markOptionParsed_def create_engine_def
  new_FBP_def new_float_array_def int_mul_def copy_raw_filter_def filter_element_count_def
  Let_def

lemma sample_declarative_returns:
  "\<exists>ok w'. initialize_cfg sample_manager sample_base \<lparr>cfg_self = Some sample_node\<rparr> sample_world
             = Inr (ok, w')"
  "\<exists>ok w'. initialize_cfg sample_manager fan_base \<lparr>cfg_self = Some sample_node\<rparr> sample_world
             = Inr (ok, w')"
  by (simp_all add: initialize_cfg_def step_defs sample_defs convert_Sinogram prod_eq_iff)

lemma sample_programmatic_returns:
  "\<exists>ok w'. initialize_prog (Some fan_sinogram) (Some sample_volume) FILTER_RAMLAK None 0 0 (- 1)
             sample_world = Inr (ok, w')"
  by (simp add: initialize_prog_def step_defs sample_defs prod_eq_iff)

lemma ShortScan_read_only_for_fan_flat_sample:
  "initialize_cfg sample_manager sample_base
       \<lparr>cfg_self = Some (sample_node\<lparr>option_ShortScan := Some True\<rparr>)\<rparr> sample_world
     = initialize_cfg sample_manager sample_base
       \<lparr>cfg_self = Some (sample_node\<lparr>option_ShortScan := None\<rparr>)\<rparr> sample_world
   \<and> (\<exists>ok w'. initialize_cfg sample_manager sample_base \<lparr>cfg_self = Some sample_node\<rparr> sample_world
                = Inr (ok, w')
              \<and> m_bShortScan (obj w') = False \<and> parsed_options w' = [])
   \<and> (\<exists>ok w'. initialize_cfg sample_manager fan_base \<lparr>cfg_self = Some sample_node\<rparr> sample_world
                = Inr (ok, w')
              \<and> m_bShortScan (obj w') = True \<and> parsed_options w' = [''ShortScan''])
   \<and> (\<exists>ok w'. initialize_prog (Some fan_sinogram) (Some sample_volume) FILTER_RAMLAK None 0 0 (- 1)
                sample_world = Inr (ok, w')
              \<and> m_bShortScan (obj w') = False)"
proof -
  have par: "\<not> is_fan_flat (base_pSinogram sample_base)"
    and fan: "is_fan_flat (base_pSinogram fan_base)" "base_initialize_ok fan_base"
    and pre: "m_bShortScan (obj sample_world) = False" "parsed_options sample_world = []"
    and opt: "option_ShortScan sample_node = Some True"
    by (simp_all add: is_fan_flat_def sample_defs)
  from sample_declarative_returns(1) obtain ok1 w1 where
    r1: "initialize_cfg sample_manager sample_base \<lparr>cfg_self = Some sample_node\<rparr> sample_world
         = Inr (ok1, w1)"
    by blast
  from sample_declarative_returns(2) obtain ok2 w2 where
    r2: "initialize_cfg sample_manager fan_base \<lparr>cfg_self = Some sample_node\<rparr> sample_world
         = Inr (ok2, w2)"
    by blast
  from sample_programmatic_returns obtain ok3 w3 where
    r3: "initialize_prog (Some fan_sinogram) (Some sample_volume) FILTER_RAMLAK None 0 0 (- 1)
           sample_world = Inr (ok3, w3)"
    by blast
  have a: "initialize_cfg sample_manager sample_base
       \<lparr>cfg_self = Some (sample_node\<lparr>option_ShortScan := Some True\<rparr>)\<rparr> sample_world
     = initialize_cfg sample_manager sample_base
       \<lparr>cfg_self = Some (sample_node\<lparr>option_ShortScan := None\<rparr>)\<rparr> sample_world"
    and b: "m_bShortScan (obj w1) = False \<and> parsed_options w1 = []"
    using par pre r1
      ShortScan_read_only_for_fan_flat[where base = sample_base and manager = sample_manager
        and node = sample_node and x = "Some True" and y = None and w = sample_world
        and ok = ok1 and w' = w1]
    by simp_all
  have c: "m_bShortScan (obj w2) = True \<and> parsed_options w2 = [''ShortScan'']"
    using fan pre opt r2
      ShortScan_read_only_for_fan_flat[where base = fan_base and manager = sample_manager
        and node = sample_node and w = sample_world and ok = ok2 and w' = w2]
    by simp
  have d: "m_bShortScan (obj w3) = False"
    using r3
      ShortScan_read_only_for_fan_flat[where pSinogram = "Some fan_sinogram"
        and pReconstruction = "Some sample_volume" and eFilter = FILTER_RAMLAK and pfFilter = None
        and iFilterWidth = 0 and iGPUIndex = 0 and fFilterParameter = "- 1" and w = sample_world
        and okp = ok3 and wp = w3]
    by simp
  from a b c d r1 r2 r3 show ?thesis by blast
qed

text \<open>
  On a new instance the declarative path without a fan-beam flat-detector geometry
  leaves the flag as the constructor found it.
\<close>

lemma new_instance_ShortScan_kept:
  assumes "\<not> is_fan_flat (base_pSinogram base)"
    and "initialize_cfg manager base \<lparr>cfg_self = Some node\<rparr> (new_instance raw) = Inr (ok, w')"
  shows "m_bShortScan (obj w') = m_bShortScan raw"
proof -
  have "clear_if_initialized (new_instance raw) = new_instance raw"
    by (simp add: clear_if_initialized_def new_instance_def constructor_def)
  with initialize_cfg_ShortScan_untouched(1)[OF assms] show ?thesis
    by (simp add: new_instance_def constructor_def)
qed

text \<open>
  C5. Claimed: for a geometry that is not fan-beam flat-detector the declarative path
  does not read \<open>ShortScan\<close> and the short-scan flag remains false, and the
  programmatic path leaves it false. The option is indeed not read, and the
  programmatic path assigns false (line 158). But the constructor (lines 44 to 51) does
  not assign \<open>m_bShortScan\<close>, and the declarative path assigns it only under the
  geometry test (lines 129 to 132): on a new instance whose flag holds true, a
  declarative initialization with a parallel-beam dataset succeeds and the flag is
  true afterwards, with \<open>ShortScan\<close> false or absent alike. The programmatic path on
  the same instance gives false.
\<close>

theorem new_instance_short_scan_stays_set:
  "m_bShortScan (obj stale_world) = True
   \<and> is_fan_flat (base_pSinogram sample_base) = False
   \<and> short_scan_after
        (initialize_cfg sample_manager sample_base
           \<lparr>cfg_self = Some (sample_node\<lparr>option_ShortScan := Some False\<rparr>)\<rparr> stale_world)
       = Some (True, True)
   \<and> short_scan_after
        (initialize_cfg sample_manager sample_base
           \<lparr>cfg_self = Some (sample_node\<lparr>option_ShortScan := None\<rparr>)\<rparr> stale_world)
       = Some (True, True)
   \<and> short_scan_after
        (initialize_prog (Some sample_sinogram) (Some sample_volume) FILTER_RAMLAK None 0 0 (- 1)
           stale_world)
       = Some (True, False)"
proof -
  have a: "m_bShortScan (obj stale_world) = True"
    "is_fan_flat (base_pSinogram sample_base) = False"
    by (simp_all add: is_fan_flat_def sample_defs)
  have b: "short_scan_after
        (initialize_cfg sample_manager sample_base
           \<lparr>cfg_self = Some (sample_node\<lparr>option_ShortScan := x\<rparr>)\<rparr> stale_world)
       = Some (True, True)" for x
    by (simp add: short_scan_after_def initialize_cfg_def step_defs check_def sample_defs
        convert_Sinogram)
  have c: "short_scan_after
        (initialize_prog (Some sample_sinogram) (Some sample_volume) FILTER_RAMLAK None 0 0 (- 1)
           stale_world)
       = Some (True, False)"
    by (simp add: short_scan_after_def initialize_prog_def step_defs check_def sample_defs)
  from a b c show ?thesis by blast
qed

section \<open>Ownership of the filter buffer across initializations\<close>

lemma buffer_owned_new_instance: "buffer_owned (new_instance raw)"
  by (simp add: buffer_owned_def owned_buffers_def new_instance_def constructor_def empty_heap_def)

lemma clear_releases:
  "m_pfFilter (obj (clear w)) = None"
  "owned_buffers w \<inter> dom (float_arrays (hp (clear w))) = {}"
  "m_fFilterParameter (obj (clear w)) = - 1"
  "m_fFilterD (obj (clear w)) = 1"
  "m_bShortScan (obj (clear w)) = False"
  "m_bIsInitialized (obj (clear w)) = False"
  "logged (clear w) = logged w"
  by (auto simp: clear_def owned_buffers_def delete_float_array_def delete_engine_def
      split: option.splits)

lemma clear_idem: "clear_if_initialized (clear w) = clear w"
  by (simp add: clear_if_initialized_def clear_releases)

lemma run_init_clears_first:
  assumes "m_bIsInitialized (obj w)"
  shows "run_init c w = run_init c (clear w)"
proof -
  from assms have "clear_if_initialized w = clear w"
    by (simp add: clear_if_initialized_def)
  then show ?thesis
    by (cases c)
      (simp_all add: initialize_cfg_def initialize_prog_def clear_idem ASTRA_ASSERT_fails_def
        abort_def clear_releases split: option.splits)
qed

lemma clear_dom:
  "dom (float_arrays (hp (clear w))) = dom (float_arrays (hp w)) - owned_buffers w"
  by (simp add: clear_def delete_float_array_def delete_engine_def owned_buffers_def
      split: option.splits)

lemma clear_if_initialized_empties:
  assumes "buffer_owned w"
  shows "dom (float_arrays (hp (clear_if_initialized w))) = {}"
    and "m_pfFilter (obj (clear_if_initialized w)) = None"
proof -
  from assms have own: "dom (float_arrays (hp w)) = owned_buffers w"
    and flag: "m_pfFilter (obj w) \<noteq> None \<longrightarrow> m_bIsInitialized (obj w)"
    by (simp_all add: buffer_owned_def)
  show "dom (float_arrays (hp (clear_if_initialized w))) = {}"
  proof (cases "m_bIsInitialized (obj w)")
    case True
    then have "clear_if_initialized w = clear w"
      by (simp add: clear_if_initialized_def)
    with own show ?thesis
      by (simp only: clear_dom Diff_cancel)
  next
    case False
    with flag have "owned_buffers w = {}"
      by (simp add: owned_buffers_def)
    with own False show ?thesis
      by (simp only: clear_if_initialized_def if_False)
  qed
  from flag show "m_pfFilter (obj (clear_if_initialized w)) = None"
    by (auto simp: clear_if_initialized_def clear_releases)
qed

lemma read_FilterSinogramId_owned:
  assumes "dom (float_arrays (hp w)) = {}"
    and "read_FilterSinogramId manager node w = Inr w2"
  shows "dom (float_arrays (hp w2)) = owned_buffers w2"
    and "node_FilterSinogramId node \<noteq> None \<longrightarrow> m_pfFilter (obj w2) \<noteq> None"
  using assms
  by (auto simp: read_FilterSinogramId_def owned_buffers_def markNodeParsed_def abort_def
      new_float_array_def Let_def split: option.splits if_splits)

lemma copy_raw_filter_owned:
  assumes "dom (float_arrays (hp w)) = {}"
    and "copy_raw_filter eFilter pfFilter iFilterWidth w = Inr w3"
  shows "dom (float_arrays (hp w3)) = owned_buffers w3"
    and "pfFilter \<noteq> None \<longrightarrow> m_pfFilter (obj w3) \<noteq> None"
    and "m_bIsInitialized (obj w3) = m_bIsInitialized (obj w)"
  using assms
  by (auto simp: copy_raw_filter_def owned_buffers_def abort_def new_float_array_def Let_def
      split: option.splits if_splits)

lemma owned_after_check:
  assumes "dom (float_arrays (hp w)) = owned_buffers w" and "m_bIsInitialized (obj w)"
  shows "buffer_owned (snd (check w))"
  using assms by (simp add: buffer_owned_def owned_buffers_def check_keeps)

lemma initialize_cfg_owned:
  assumes own: "buffer_owned w"
    and r: "initialize_cfg manager base cfg w = Inr (ok, w')"
  shows "buffer_owned w'"
    and "supplies_buffer (Declarative manager base cfg) \<longrightarrow> m_pfFilter (obj w') \<noteq> None"
proof -
  from r obtain node where node: "cfg_self cfg = Some node"
    by (auto simp: initialize_cfg_def ASTRA_ASSERT_fails_def abort_def split: option.splits)
  then have cfg: "cfg = \<lparr>cfg_self = Some node\<rparr>"
    by (cases cfg) simp
  note empties = clear_if_initialized_empties[OF own]
  have "buffer_owned w'
        \<and> (supplies_buffer (Declarative manager base cfg) \<longrightarrow> m_pfFilter (obj w') \<noteq> None)"
  proof (cases "base_initialize_ok base")
    case False
    with r cfg have "w' = base_initialize base (clear_if_initialized w)"
      by (simp add: initialize_cfg_base_failed)
    with empties False show ?thesis
      by (simp add: buffer_owned_def owned_buffers_def keeps)
  next
    case True
    let ?w1 = "read_FilterType node (base_initialize base (clear_if_initialized w))"
    from r True cfg obtain w2 where w2: "read_FilterSinogramId manager node ?w1 = Inr w2"
      and c: "check (create_engine (read_ShortScan node (read_FilterD node (read_FilterParameter node w2))))
              = (ok, w')"
      by (auto simp: initialize_cfg_unfold split: sum.splits)
    let ?w4 = "create_engine (read_ShortScan node (read_FilterD node (read_FilterParameter node w2)))"
    have "dom (float_arrays (hp ?w1)) = {}"
      using empties(1) by (simp add: keeps)
    note o = read_FilterSinogramId_owned[OF this w2]
    have flag: "m_bIsInitialized (obj w2)"
      using read_FilterSinogramId_keeps(3)[OF w2] True by (simp add: keeps)
    have "dom (float_arrays (hp ?w4)) = owned_buffers ?w4" "m_bIsInitialized (obj ?w4)"
      using o(1) flag by (simp_all add: owned_buffers_def keeps)
    from owned_after_check[OF this] c have "buffer_owned w'"
      by simp
    moreover from c have "m_pfFilter (obj w') = m_pfFilter (obj w2)"
      using check_keeps(4)[of ?w4] by (simp add: keeps)
    ultimately show ?thesis
      using o(2) node by simp
  qed
  then show "buffer_owned w'"
    and "supplies_buffer (Declarative manager base cfg) \<longrightarrow> m_pfFilter (obj w') \<noteq> None"
    by simp_all
qed

lemma initialize_prog_owned:
  assumes own: "buffer_owned w"
    and r: "initialize_prog pSinogram pReconstruction eFilter pfFilter iFilterWidth iGPUIndex
              fFilterParameter w = Inr (ok, w')"
  shows "buffer_owned w'"
    and "pfFilter \<noteq> None \<longrightarrow> m_pfFilter (obj w') \<noteq> None"
proof -
  let ?w2 = "create_engine ((clear_if_initialized w)\<lparr>obj := (obj (clear_if_initialized w))
               \<lparr>m_pSinogram := pSinogram, m_pReconstruction := pReconstruction,
                m_iGPUIndex := iGPUIndex, m_eFilter := eFilter,
                m_iFilterWidth := iFilterWidth, m_bShortScan := False,
                m_bIsInitialized := True\<rparr>\<rparr>)"
  from r obtain w3 where w3: "copy_raw_filter eFilter pfFilter iFilterWidth ?w2 = Inr w3"
    and c: "check (w3\<lparr>obj := (obj w3)\<lparr>m_fFilterParameter := fFilterParameter\<rparr>\<rparr>) = (ok, w')"
    by (auto simp: initialize_prog_unfold split: sum.splits)
  let ?w4 = "w3\<lparr>obj := (obj w3)\<lparr>m_fFilterParameter := fFilterParameter\<rparr>\<rparr>"
  have "dom (float_arrays (hp ?w2)) = {}"
    using clear_if_initialized_empties(1)[OF own] by (simp add: create_engine_keeps)
  note o = copy_raw_filter_owned[OF this w3]
  have "dom (float_arrays (hp ?w4)) = owned_buffers ?w4" "m_bIsInitialized (obj ?w4)"
    using o(1,3) by (simp_all add: owned_buffers_def create_engine_keeps)
  from owned_after_check[OF this] c show "buffer_owned w'"
    by simp
  from c have "m_pfFilter (obj w') = m_pfFilter (obj w3)"
    using check_keeps(4)[of ?w4] by simp
  with o(2) show "pfFilter \<noteq> None \<longrightarrow> m_pfFilter (obj w') \<noteq> None"
    by simp
qed

lemma run_init_owned:
  assumes "buffer_owned w" and "run_init c w = Inr (ok, w')"
  shows "buffer_owned w'" and "supplies_buffer c \<longrightarrow> m_pfFilter (obj w') \<noteq> None"
proof -
  have "buffer_owned w' \<and> (supplies_buffer c \<longrightarrow> m_pfFilter (obj w') \<noteq> None)"
  proof (cases c)
    case (Declarative manager base cfg)
    with assms initialize_cfg_owned[of w manager base cfg ok w'] show ?thesis
      by simp
  next
    case (Programmatic pS pR eF pf iW iG fP)
    with assms initialize_prog_owned[of w pS pR eF pf iW iG fP ok w'] show ?thesis
      by simp
  qed
  then show "buffer_owned w'" and "supplies_buffer c \<longrightarrow> m_pfFilter (obj w') \<noteq> None"
    by simp_all
qed

lemma run_inits_owned:
  "buffer_owned w \<Longrightarrow> run_inits calls w = Inr w' \<Longrightarrow> buffer_owned w'"
proof (induction calls arbitrary: w)
  case Nil
  then show ?case by simp
next
  case (Cons c cs)
  from Cons.prems(2) obtain ok w1 where step: "run_init c w = Inr (ok, w1)"
    and rest: "run_inits cs w1 = Inr w'"
    by (auto split: sum.splits prod.splits)
  from run_init_owned(1)[OF Cons.prems(1) step] rest show ?case
    by (rule Cons.IH)
qed

lemma run_inits_snoc:
  "run_inits (cs @ [c]) w = Inr w' \<Longrightarrow>
   \<exists>w1 ok. run_inits cs w = Inr w1 \<and> run_init c w1 = Inr (ok, w')"
proof (induction cs arbitrary: w)
  case Nil
  then show ?case by (auto split: sum.splits prod.splits)
next
  case (Cons d ds)
  from Cons.prems obtain ok w1 where step: "run_init d w = Inr (ok, w1)"
    and rest: "run_inits (ds @ [c]) w1 = Inr w'"
    by (auto split: sum.splits prod.splits)
  from Cons.IH[OF rest] step show ?case
    by auto
qed

lemma owned_card:
  assumes "buffer_owned w"
  shows "card (dom (float_arrays (hp w))) = (if m_pfFilter (obj w) = None then 0 else 1)"
  using assms by (auto simp: buffer_owned_def owned_buffers_def split: option.splits)

text \<open>The destructor leaves no \<^verbatim>\<open>float\<close> array of an owning instance behind.\<close>

lemma destructor_releases:
  assumes "buffer_owned w"
  shows "dom (float_arrays (hp (destructor w))) = {}"
proof -
  have "dom (float_arrays (hp (destructor w))) = dom (float_arrays (hp w)) - owned_buffers w"
    by (simp add: destructor_def delete_float_array_def owned_buffers_def split: option.splits)
  with assms show ?thesis
    by (simp only: buffer_owned_def Diff_cancel)
qed

text \<open>
  C2. An initialization of a configured instance runs as on the cleared instance, where
  the buffer owned before is released and the filter parameter, the D factor and the
  short-scan flag are back at their defaults. A new instance owns its buffers, and after
  any number of initializations that return, the live \<^verbatim>\<open>float\<close> arrays are exactly
  the one the instance points to: at most one, and exactly one when the last call
  supplied a buffer.
\<close>

theorem reinitialization_owns_one_buffer:
  "(m_bIsInitialized (obj w) \<longrightarrow>
      run_init c w = run_init c (clear w)
      \<and> m_pfFilter (obj (clear w)) = None
      \<and> owned_buffers w \<inter> dom (float_arrays (hp (clear w))) = {}
      \<and> m_fFilterParameter (obj (clear w)) = - 1 \<and> m_fFilterD (obj (clear w)) = 1
      \<and> m_bShortScan (obj (clear w)) = False)
   \<and> buffer_owned (new_instance raw)
   \<and> (buffer_owned w \<and> run_inits calls w = Inr w' \<longrightarrow>
        dom (float_arrays (hp w')) = owned_buffers w'
        \<and> card (dom (float_arrays (hp w'))) \<le> 1
        \<and> (calls \<noteq> [] \<and> supplies_buffer (last calls) \<longrightarrow> card (dom (float_arrays (hp w'))) = 1))"
proof (intro conjI impI)
  assume "m_bIsInitialized (obj w)"
  then show "run_init c w = run_init c (clear w)"
    by (rule run_init_clears_first)
next
  show "buffer_owned (new_instance raw)"
    by (rule buffer_owned_new_instance)
next
  assume h: "buffer_owned w \<and> run_inits calls w = Inr w'"
  then have own: "buffer_owned w'"
    using run_inits_owned by blast
  then show "dom (float_arrays (hp w')) = owned_buffers w'"
    by (simp add: buffer_owned_def)
  from owned_card[OF own] show "card (dom (float_arrays (hp w'))) \<le> 1"
    by simp
  assume s: "calls \<noteq> [] \<and> supplies_buffer (last calls)"
  then obtain cs c' where calls: "calls = cs @ [c']"
    by (metis append_butlast_last_id)
  with h obtain w1 ok where w1: "run_inits cs w = Inr w1" and last: "run_init c' w1 = Inr (ok, w')"
    using run_inits_snoc by blast
  from h w1 have "buffer_owned w1"
    using run_inits_owned by blast
  from run_init_owned(2)[OF this last] s calls have "m_pfFilter (obj w') \<noteq> None"
    by simp
  with owned_card[OF own] show "card (dom (float_arrays (hp w'))) = 1"
    by simp
qed (simp_all add: clear_releases)

lemma sample_calls_return: "\<exists>w'. run_inits sample_calls configured_world = Inr w'"
proof -
  obtain ok1 w1 where r1: "initialize_prog (Some sample_sinogram) (Some sample_volume) FILTER_SINOGRAM
      (Some [7, 8, 9, 10]) 3 0 (- 1) configured_world = Inr (ok1, w1)"
    by (simp add: initialize_prog_def step_defs clear_def delete_float_array_def delete_engine_def
        sample_defs prod_eq_iff)
  have "base_initialize_ok sample_base" "node_FilterSinogramId sample_node = Some 1"
    "sample_manager 1 = Some (ProjectionData sample_sinogram)"
    "pd_getGeometry sample_sinogram = Some sample_geometry"
    "getDetectorCount sample_geometry = 3" "getProjectionAngleCount sample_geometry = 2"
    "length (pd_getDataConst sample_sinogram) = nat (3 * 2)"
    by (simp_all add: sample_defs)
  then obtain ok2 w2 where r2: "initialize_cfg sample_manager sample_base \<lparr>cfg_self = Some sample_node\<rparr> w1
      = Inr (ok2, w2)"
    using declarative_buffer_copied[where base = sample_base and node = sample_node and ident = 1
      and manager = sample_manager and d = sample_sinogram and geom = sample_geometry and w = w1
      and W = 3 and A = 2]
    by auto
  from r1 r2 show ?thesis
    by (simp add: sample_calls_def)
qed

theorem reinitialization_owns_one_buffer_witness:
  "m_bIsInitialized (obj configured_world)
   \<and> run_init (hd sample_calls) configured_world = run_init (hd sample_calls) (clear configured_world)
   \<and> m_pfFilter (obj configured_world) = Some 0
   \<and> m_pfFilter (obj (clear configured_world)) = None
   \<and> 0 \<notin> dom (float_arrays (hp (clear configured_world)))
   \<and> m_fFilterParameter (obj (clear configured_world)) = - 1
   \<and> m_fFilterD (obj (clear configured_world)) = 1
   \<and> m_bShortScan (obj (clear configured_world)) = False
   \<and> buffer_owned configured_world
   \<and> sample_calls \<noteq> [] \<and> supplies_buffer (last sample_calls)
   \<and> (\<exists>w'. run_inits sample_calls configured_world = Inr w'
          \<and> dom (float_arrays (hp w')) = owned_buffers w'
          \<and> card (dom (float_arrays (hp w'))) = 1)"
proof -
  have init: "m_bIsInitialized (obj configured_world)" "m_pfFilter (obj configured_world) = Some 0"
    by (simp_all add: sample_defs)
  have own: "buffer_owned configured_world"
    by (simp add: buffer_owned_def owned_buffers_def sample_defs)
  have calls: "sample_calls \<noteq> []" "supplies_buffer (last sample_calls)"
    by (simp_all add: sample_calls_def sample_defs)
  have ob: "owned_buffers configured_world = {0}"
    by (simp add: owned_buffers_def init)
  from sample_calls_return obtain w' where r: "run_inits sample_calls configured_world = Inr w'"
    by blast
  note inst = reinitialization_owns_one_buffer[where w = configured_world and c = "hd sample_calls"
      and calls = sample_calls and w' = w' and raw = sample_members]
  from inst init ob have
    "run_init (hd sample_calls) configured_world = run_init (hd sample_calls) (clear configured_world)"
    "m_pfFilter (obj (clear configured_world)) = None"
    "0 \<notin> dom (float_arrays (hp (clear configured_world)))"
    "m_fFilterParameter (obj (clear configured_world)) = - 1"
    "m_fFilterD (obj (clear configured_world)) = 1"
    "m_bShortScan (obj (clear configured_world)) = False"
    by auto
  moreover from inst own r calls have
    "dom (float_arrays (hp w')) = owned_buffers w'" "card (dom (float_arrays (hp w'))) = 1"
    by blast+
  ultimately show ?thesis
    using init own calls r by blast
qed

end
